theory Spec2Isabelle
  imports Complex_Main "HOL-Library.Char_ord" "HOL-Library.List_Lexorder"
begin

section \<open>Arrays\<close>

text \<open>
  The notebooks compute on numpy arrays. An array is its shape together with the entry
  at every multi-index; only the entries at indices inside the shape are meaningful.
  Floating-point numbers are idealised as real and complex numbers throughout: every
  statement below is about the exact value of the expression the code evaluates.
\<close>

record 'a ndarray =
  shape :: "nat list"
  item :: "nat list \<Rightarrow> 'a"

definition ndim :: "'a ndarray \<Rightarrow> nat" where
  "ndim a = length (shape a)"

text \<open>The multi-indices of an array of the given shape, in row-major order.\<close>

fun indices :: "nat list \<Rightarrow> nat list list" where
  "indices [] = [[]]"
| "indices (n # ns) = concat (map (\<lambda>i. map ((#) i) (indices ns)) [0..<n])"

text \<open>An elementwise unary operation, and an elementwise binary operation on two arrays
  of one shape (where numpy has nothing to broadcast).\<close>

definition nd_map :: "('a \<Rightarrow> 'b) \<Rightarrow> 'a ndarray \<Rightarrow> 'b ndarray" where
  "nd_map f a = \<lparr>shape = shape a, item = (\<lambda>ix. f (item a ix))\<rparr>"

definition nd_map2 :: "('a \<Rightarrow> 'b \<Rightarrow> 'c) \<Rightarrow> 'a ndarray \<Rightarrow> 'b ndarray \<Rightarrow> 'c ndarray" where
  "nd_map2 f a b = \<lparr>shape = shape a, item = (\<lambda>ix. f (item a ix) (item b ix))\<rparr>"

text \<open>\<^verbatim>\<open>np.arange(start, stop)\<close> with step 1: the values \<open>start + k\<close> below \<open>stop\<close>.\<close>

definition arange :: "real \<Rightarrow> real \<Rightarrow> real ndarray" where
  "arange start stop =
     \<lparr>shape = [nat \<lceil>stop - start\<rceil>], item = (\<lambda>ix. start + real (ix ! 0))\<rparr>"

text \<open>\<^verbatim>\<open>np.meshgrid(x, y)\<close> of two one-dimensional arrays (the default \<open>xy\<close> indexing):
  both results have shape \<open>(len y, len x)\<close>; the first repeats \<open>x\<close> along the rows, the
  second repeats \<open>y\<close> along the columns.\<close>

definition meshgrid :: "'a ndarray \<Rightarrow> 'a ndarray \<Rightarrow> 'a ndarray \<times> 'a ndarray" where
  "meshgrid x y =
     (let nx = hd (shape x); ny = hd (shape y)
      in (\<lparr>shape = [ny, nx], item = (\<lambda>ix. item x [ix ! 1])\<rparr>,
          \<lparr>shape = [ny, nx], item = (\<lambda>ix. item y [ix ! 0])\<rparr>))"

section \<open>The Butterworth band-pass mask\<close>

text \<open>
  \<^verbatim>\<open>
  def butterworth(d1, d2, n):
      x = np.arange(-1024/2+0.5,1024/2+1-0.5)
      xx, yy = np.meshgrid(x, x)
      d = np.sqrt(xx**2+yy**2)
      bff = (1 - (1./(1 + (d/d1)**(2*n))))*(1/(1 + (d/d2)**(2*n)))
      return bff
  \<close>
  The order \<open>n\<close> is a natural number, the cut-off wavenumbers are reals.
\<close>

definition butterworth :: "real \<Rightarrow> real \<Rightarrow> nat \<Rightarrow> real ndarray" where
  "butterworth d1 d2 n =
     (let x = arange (- 1024 / 2 + 0.5) (1024 / 2 + 1 - 0.5);
          (xx, yy) = meshgrid x x;
          d = nd_map sqrt (nd_map2 (+) (nd_map (\<lambda>v. v ^ 2) xx) (nd_map (\<lambda>v. v ^ 2) yy));
          bff = nd_map2 (*)
                  (nd_map (\<lambda>v. 1 - (1 / (1 + v))) (nd_map (\<lambda>v. v ^ (2 * n)) (nd_map (\<lambda>v. v / d1) d)))
                  (nd_map (\<lambda>v. 1 / (1 + v)) (nd_map (\<lambda>v. v ^ (2 * n)) (nd_map (\<lambda>v. v / d2) d)))
      in bff)"

section \<open>Errors\<close>

text \<open>The exceptions numpy and pandas raise on the paths below.\<close>

datatype error = IndexError | ValueError

section \<open>Indexing, squeezing, transforms and broadcasting\<close>

text \<open>\<^verbatim>\<open>frame[0:1024, 0:1024]\<close>: a slice of the first two axes that starts at 0, the
  other axes whole. An array with fewer than two axes has too many indices.\<close>

definition slice2 :: "'a ndarray \<Rightarrow> error + 'a ndarray" where
  "slice2 a =
     (case shape a of
        s0 # s1 # rest \<Rightarrow> Inr \<lparr>shape = min s0 1024 # min s1 1024 # rest, item = item a\<rparr>
      | _ \<Rightarrow> Inl IndexError)"

text \<open>\<^verbatim>\<open>frame[0, 0:1024, 0:1024]\<close>: entry 0 of the first axis, which must exist, and the
  same slice of the next two axes.\<close>

definition index0_slice2 :: "'a ndarray \<Rightarrow> error + 'a ndarray" where
  "index0_slice2 a =
     (case shape a of
        s0 # s1 # s2 # rest \<Rightarrow>
          if s0 = 0 then Inl IndexError
          else Inr \<lparr>shape = min s1 1024 # min s2 1024 # rest, item = (\<lambda>ix. item a (0 # ix))\<rparr>
      | _ \<Rightarrow> Inl IndexError)"

text \<open>\<^verbatim>\<open>np.squeeze\<close> removes every axis of length 1; \<open>unsqueeze_index s ix\<close> is the index
  into the array of shape \<open>s\<close> that the index \<open>ix\<close> of the squeezed array stands for.\<close>

fun unsqueeze_index :: "nat list \<Rightarrow> nat list \<Rightarrow> nat list" where
  "unsqueeze_index [] ix = []"
| "unsqueeze_index (s # ss) ix =
     (if s = 1 then 0 # unsqueeze_index ss ix
      else (case ix of [] \<Rightarrow> [] | i # is \<Rightarrow> i # unsqueeze_index ss is))"

definition squeeze :: "'a ndarray \<Rightarrow> 'a ndarray" where
  "squeeze a =
     \<lparr>shape = filter (\<lambda>s. s \<noteq> 1) (shape a), item = (\<lambda>ix. item a (unsqueeze_index (shape a) ix))\<rparr>"

text \<open>
  \<^verbatim>\<open>np.fft.fft2\<close> and \<^verbatim>\<open>np.fft.ifft2\<close> transform the last two axes:
  \<open>A[k, l] = \<Sum>m \<Sum>n a[m, n] exp (- 2 pi i (m k / M + n l / N))\<close>, the inverse with the
  opposite sign and the factor \<open>1 / (M N)\<close>. An array with fewer than two axes has no
  such axes, and an axis of length 0 has no data points to transform.
\<close>

definition dft2 :: "real \<Rightarrow> nat \<Rightarrow> nat \<Rightarrow> (nat \<Rightarrow> nat \<Rightarrow> complex) \<Rightarrow> nat \<Rightarrow> nat \<Rightarrow> complex" where
  "dft2 sg M N f k l =
     (\<Sum>m<M. \<Sum>n<N. f m n *
         cis (sg * 2 * pi * (real m * real k / real M + real n * real l / real N)))"

definition fft2 :: "complex ndarray \<Rightarrow> error + complex ndarray" where
  "fft2 a =
     (if ndim a < 2 then Inl IndexError
      else let r = ndim a - 2; M = shape a ! r; N = shape a ! (r + 1)
           in if M = 0 \<or> N = 0 then Inl ValueError
              else Inr \<lparr>shape = shape a,
                        item = (\<lambda>ix. dft2 (- 1) M N (\<lambda>m n. item a (take r ix @ [m, n]))
                                       (ix ! r) (ix ! (r + 1)))\<rparr>)"

definition ifft2 :: "complex ndarray \<Rightarrow> error + complex ndarray" where
  "ifft2 a =
     (if ndim a < 2 then Inl IndexError
      else let r = ndim a - 2; M = shape a ! r; N = shape a ! (r + 1)
           in if M = 0 \<or> N = 0 then Inl ValueError
              else Inr \<lparr>shape = shape a,
                        item = (\<lambda>ix. dft2 1 M N (\<lambda>m n. item a (take r ix @ [m, n]))
                                       (ix ! r) (ix ! (r + 1)) / of_nat (M * N))\<rparr>)"

text \<open>
  \<^verbatim>\<open>np.fft.fftshift\<close> without an \<open>axes\<close> argument rolls every axis of length \<open>n\<close> by
  \<open>n div 2\<close>, so the entry at \<open>j\<close> comes from \<open>(j - n div 2) mod n\<close>;
  \<^verbatim>\<open>np.fft.ifftshift\<close> rolls by \<open>- (n div 2)\<close>.
\<close>

definition fftshift :: "'a ndarray \<Rightarrow> 'a ndarray" where
  "fftshift a =
     \<lparr>shape = shape a,
      item = (\<lambda>ix. item a (map2 (\<lambda>j n. (j + (n - n div 2)) mod n) ix (shape a)))\<rparr>"

definition ifftshift :: "'a ndarray \<Rightarrow> 'a ndarray" where
  "ifftshift a =
     \<lparr>shape = shape a,
      item = (\<lambda>ix. item a (map2 (\<lambda>j n. (j + n div 2) mod n) ix (shape a)))\<rparr>"

text \<open>
  Broadcasting: the shapes are aligned at their last axes; two lengths are compatible
  when they are equal or one of them is 1. \<open>broadcast_rev\<close> works on the reversed shapes.
\<close>

fun broadcast_rev :: "nat list \<Rightarrow> nat list \<Rightarrow> nat list option" where
  "broadcast_rev [] ys = Some ys"
| "broadcast_rev xs [] = Some xs"
| "broadcast_rev (x # xs) (y # ys) =
     (if x = y \<or> y = 1 then map_option ((#) x) (broadcast_rev xs ys)
      else if x = 1 then map_option ((#) y) (broadcast_rev xs ys)
      else None)"

definition broadcast_shapes :: "nat list \<Rightarrow> nat list \<Rightarrow> nat list option" where
  "broadcast_shapes s t = map_option rev (broadcast_rev (rev s) (rev t))"

text \<open>The index into an operand of shape \<open>s\<close> for the index \<open>ix\<close> of the broadcast
  result: the last \<open>length s\<close> components, with 0 on every axis of length 1.\<close>

definition broadcast_index :: "nat list \<Rightarrow> nat list \<Rightarrow> nat list" where
  "broadcast_index s ix =
     map2 (\<lambda>j n. if n = 1 then 0 else j) (drop (length ix - length s) ix) s"

definition multiply :: "complex ndarray \<Rightarrow> complex ndarray \<Rightarrow> error + complex ndarray" where
  "multiply a b =
     (case broadcast_shapes (shape a) (shape b) of
        None \<Rightarrow> Inl ValueError
      | Some s \<Rightarrow>
          Inr \<lparr>shape = s,
               item = (\<lambda>ix. item a (broadcast_index (shape a) ix) *
                             item b (broadcast_index (shape b) ix))\<rparr>)"

text \<open>The sum of a boolean array counts its true entries; \<^verbatim>\<open>np.array([v])\<close> is the
  one-dimensional array of a list.\<close>

definition count_true :: "bool ndarray \<Rightarrow> int" where
  "count_true b = int (length (filter (item b) (indices (shape b))))"

definition np_array :: "'a list \<Rightarrow> 'a ndarray" where
  "np_array xs = \<lparr>shape = [length xs], item = (\<lambda>ix. xs ! (ix ! 0))\<rparr>"

section \<open>The floc proxy\<close>

text \<open>
  \<^verbatim>\<open>
  def frame_filter(frame, d1, d2, n):
      if frame.ndim == 3 and frame.shape[0] == 1:
          I = np.squeeze(frame[0, 0:1024, 0:1024])
      else:
          I = frame[0:1024, 0:1024]
      bff = butterworth(d1, d2, n)
      I_fft = np.fft.fft2(I)
      I_fft_shift = np.fft.fftshift(I_fft)
      I_fft_shift_filt = I_fft_shift*bff # filter with the Butterworth filter
      I_fft_filt = np.fft.ifftshift(I_fft_shift_filt)
      I_filt = np.fft.ifft2(I_fft_filt)
      return I_filt
  \<close>
  A frame holds unsigned integers, here reals; the transform and the product turn the
  real operands into complex numbers.
\<close>

definition crop :: "'a ndarray \<Rightarrow> error + 'a ndarray" where
  "crop frame =
     (if ndim frame = 3 \<and> shape frame ! 0 = 1
      then (case index0_slice2 frame of Inl e \<Rightarrow> Inl e | Inr v \<Rightarrow> Inr (squeeze v))
      else slice2 frame)"

definition frame_filter :: "real ndarray \<Rightarrow> real \<Rightarrow> real \<Rightarrow> nat \<Rightarrow> error + complex ndarray" where
  "frame_filter frame d1 d2 n =
     (case crop frame of
        Inl e \<Rightarrow> Inl e
      | Inr I \<Rightarrow>
          let bff = butterworth d1 d2 n
          in (case fft2 (nd_map complex_of_real I) of
                Inl e \<Rightarrow> Inl e
              | Inr I_fft \<Rightarrow>
                  let I_fft_shift = fftshift I_fft
                  in (case multiply I_fft_shift (nd_map complex_of_real bff) of
                        Inl e \<Rightarrow> Inl e
                      | Inr I_fft_shift_filt \<Rightarrow>
                          let I_fft_filt = ifftshift I_fft_shift_filt
                          in ifft2 I_fft_filt)))"

text \<open>
  \<^verbatim>\<open>
  def calc_floc_proxy(frame, d1, d2, n):
      I_filt = frame_filter(frame, d1, d2, n)
      return np.array([(np.absolute(I_filt)>4000).sum()])
  \<close>
\<close>

definition calc_floc_proxy :: "real ndarray \<Rightarrow> real \<Rightarrow> real \<Rightarrow> nat \<Rightarrow> error + int ndarray" where
  "calc_floc_proxy frame d1 d2 n =
     (case frame_filter frame d1 d2 n of
        Inl e \<Rightarrow> Inl e
      | Inr I_filt \<Rightarrow>
          Inr (np_array [count_true (nd_map (\<lambda>v. 4000 < v) (nd_map cmod I_filt))]))"

section \<open>The filter steps on a 1024 x 1024 image\<close>

text \<open>
  The steps of the frequency-domain filter as they are described: the 1024 x 1024
  subimage of a frame (of a two-dimensional frame, or of the single plane of a
  three-dimensional one), its two-dimensional transform, the shift that moves the zero
  wavenumber to the centre, the product with the mask, the shift back and the inverse
  transform. An image is a function of its row and column.
\<close>

definition subimage :: "real ndarray \<Rightarrow> nat \<Rightarrow> nat \<Rightarrow> complex" where
  "subimage frame =
     (\<lambda>i j. complex_of_real (if ndim frame = 3 then item frame [0, i, j] else item frame [i, j]))"

definition shift_1024 :: "(nat \<Rightarrow> nat \<Rightarrow> 'a) \<Rightarrow> nat \<Rightarrow> nat \<Rightarrow> 'a" where
  "shift_1024 f = (\<lambda>k l. f ((k + 512) mod 1024) ((l + 512) mod 1024))"

definition mask_1024 ::
  "real \<Rightarrow> real \<Rightarrow> nat \<Rightarrow> (nat \<Rightarrow> nat \<Rightarrow> complex) \<Rightarrow> nat \<Rightarrow> nat \<Rightarrow> complex" where
  "mask_1024 d1 d2 n f = (\<lambda>k l. f k l * complex_of_real (item (butterworth d1 d2 n) [k, l]))"

definition filter_steps ::
  "real \<Rightarrow> real \<Rightarrow> nat \<Rightarrow> (nat \<Rightarrow> nat \<Rightarrow> complex) \<Rightarrow> nat \<Rightarrow> nat \<Rightarrow> complex" where
  "filter_steps d1 d2 n f =
     (\<lambda>i j. dft2 1 1024 1024
               (shift_1024 (mask_1024 d1 d2 n (shift_1024 (dft2 (- 1) 1024 1024 f)))) i j
             / of_nat (1024 * 1024))"

section \<open>Example frames\<close>

text \<open>Black frames: a colour frame as the \<open>rgb24\<close> pipeline declares it and the
  block of one such frame in the stacked array, two grey frames smaller than the crop
  window, and a grey frame and its block as the \<open>gray16le\<close> pipeline declares them.\<close>

definition rgb_frame :: "real ndarray" where
  "rgb_frame = \<lparr>shape = [1080, 1920, 3], item = (\<lambda>ix. 0)\<rparr>"

definition small_frame :: "real ndarray" where
  "small_frame = \<lparr>shape = [480, 640], item = (\<lambda>ix. 0)\<rparr>"

definition narrow_frame :: "real ndarray" where
  "narrow_frame = \<lparr>shape = [1080, 960], item = (\<lambda>ix. 0)\<rparr>"

definition gray_frame :: "real ndarray" where
  "gray_frame = \<lparr>shape = [1080, 1920], item = (\<lambda>ix. 0)\<rparr>"

definition gray_block :: "real ndarray" where
  "gray_block = \<lparr>shape = [1, 1080, 1920], item = (\<lambda>ix. 0)\<rparr>"

definition rgb_block :: "real ndarray" where
  "rgb_block = \<lparr>shape = [1, 1080, 1920, 3], item = (\<lambda>ix. 0)\<rparr>"

section \<open>The metadata table\<close>

text \<open>
  The table read from \<^verbatim>\<open>dbcamhd.json\<close> has one row per video file; the notebooks use
  four of its columns.
\<close>

record row =
  blob_url :: string
  deployment :: int
  frame_count :: int
  timestamp :: real

text \<open>
  \<^verbatim>\<open>
  blob_urls = list(dbcamhd.blob_url[(dbcamhd.deployment == 2) & (dbcamhd.frame_count > 5000)
                                    & (dbcamhd.frame_count < 30000)])
  blob_urls.sort()
  \<close>
\<close>

definition blob_urls :: "row list \<Rightarrow> string list" where
  "blob_urls dbcamhd =
     sort (map blob_url
       (filter (\<lambda>r. deployment r = 2 \<and> frame_count r > 5000 \<and> frame_count r < 30000) dbcamhd))"

section \<open>Frame timestamps\<close>

text \<open>
  \<^verbatim>\<open>
  frame_timestamp = []
  for blob_url in blob_urls:
      timestamp = dbcamhd['timestamp'][dbcamhd.blob_url == blob_url].iloc[0]
      for frame_number in frame_numbers:
          timestamp = timestamp + frame_number/29.97
          dt = datetime.datetime.fromtimestamp(timestamp)
          frame_timestamp.append(dates.date2num(dt))
  \<close>
  The two date conversions belong to the standard library and to the plotting library;
  they are parameters here. The loop variable \<^verbatim>\<open>timestamp\<close> is \<open>t\<close>, and \<open>iloc0\<close> is
  the first entry of a selection, which an empty selection does not have.
\<close>

definition iloc0 :: "'a list \<Rightarrow> error + 'a" where
  "iloc0 xs = (case xs of [] \<Rightarrow> Inl IndexError | x # _ \<Rightarrow> Inr x)"

fun frame_number_loop ::
  "(real \<Rightarrow> 'dt) \<Rightarrow> ('dt \<Rightarrow> 'num) \<Rightarrow> int list \<Rightarrow> real \<times> 'num list \<Rightarrow> real \<times> 'num list" where
  "frame_number_loop fromtimestamp date2num [] st = st"
| "frame_number_loop fromtimestamp date2num (frame_number # rest) (t, frame_timestamp) =
     (let t' = t + real_of_int frame_number / 29.97;
          dt = fromtimestamp t'
      in frame_number_loop fromtimestamp date2num rest (t', frame_timestamp @ [date2num dt]))"

fun blob_url_loop ::
  "(real \<Rightarrow> 'dt) \<Rightarrow> ('dt \<Rightarrow> 'num) \<Rightarrow> row list \<Rightarrow> string list \<Rightarrow> int list \<Rightarrow> 'num list
     \<Rightarrow> error + 'num list" where
  "blob_url_loop fromtimestamp date2num dbcamhd [] frame_numbers frame_timestamp =
     Inr frame_timestamp"
| "blob_url_loop fromtimestamp date2num dbcamhd (url # rest) frame_numbers frame_timestamp =
     (case iloc0 (map timestamp (filter (\<lambda>r. blob_url r = url) dbcamhd)) of
        Inl e \<Rightarrow> Inl e
      | Inr t \<Rightarrow>
          blob_url_loop fromtimestamp date2num dbcamhd rest frame_numbers
            (snd (frame_number_loop fromtimestamp date2num frame_numbers (t, frame_timestamp))))"

definition frame_timestamp ::
  "(real \<Rightarrow> 'dt) \<Rightarrow> ('dt \<Rightarrow> 'num) \<Rightarrow> row list \<Rightarrow> string list \<Rightarrow> int list \<Rightarrow> error + 'num list" where
  "frame_timestamp fromtimestamp date2num dbcamhd urls frame_numbers =
     blob_url_loop fromtimestamp date2num dbcamhd urls frame_numbers []"

text \<open>A table of three files, of which the first two are selected.\<close>

definition example_table :: "row list" where
  "example_table =
     [\<lparr>blob_url = ''b.mov'', deployment = 2, frame_count = 26000, timestamp = 2000\<rparr>,
      \<lparr>blob_url = ''a.mov'', deployment = 2, frame_count = 25000, timestamp = 1000\<rparr>,
      \<lparr>blob_url = ''c.mov'', deployment = 1, frame_count = 26000, timestamp = 3000\<rparr>]"

section \<open>The list of deferred frames\<close>

text \<open>
  \<^verbatim>\<open>
  delayed_frame_list = []
  for blob_url in blob_urls:
      delayed_moov_atom = delayed(camhd.get_moov_atom)(blob_url)
      for frame_number in frame_numbers:
          delayed_frame = delayed(camhd.get_frame)(blob_url, frame_number, 'rgb24', delayed_moov_atom)
          delayed_frame_list.append(dsa.from_delayed(delayed_frame, (1080, 1920, 3), np.uint8))
  delayed_frame_array = dsa.stack(delayed_frame_list)
  \<close>
  The other notebook asks for \<^verbatim>\<open>'gray16le'\<close> frames and declares the shape
  \<open>(1080, 1920)\<close> and the type \<^verbatim>\<open>np.uint16\<close>; pixel format, shape and type are
  parameters of the model. Every call of a deferred function makes a new node of the
  task graph; a node is identified by its key, here the number of nodes made before it,
  and the state of the loops holds the list built so far and all nodes made so far.
\<close>

datatype delayed = Delayed (key: nat) (func: string) (args: "argument list")
  and argument = ArgStr string | ArgInt int | ArgDelayed delayed

datatype dtype = UInt8 | UInt16

record dask_array =
  source :: delayed
  declared_shape :: "nat list"
  declared_dtype :: dtype

definition delayed_call :: "string \<Rightarrow> argument list \<Rightarrow> delayed list \<Rightarrow> delayed \<times> delayed list" where
  "delayed_call f as made = (let d = Delayed (length made) f as in (d, made @ [d]))"

definition from_delayed :: "delayed \<Rightarrow> nat list \<Rightarrow> dtype \<Rightarrow> dask_array" where
  "from_delayed d shp dt = \<lparr>source = d, declared_shape = shp, declared_dtype = dt\<rparr>"

fun frames_loop ::
  "string \<Rightarrow> nat list \<Rightarrow> dtype \<Rightarrow> string \<Rightarrow> delayed \<Rightarrow> int list
     \<Rightarrow> dask_array list \<times> delayed list \<Rightarrow> dask_array list \<times> delayed list" where
  "frames_loop fmt shp dt url delayed_moov_atom [] st = st"
| "frames_loop fmt shp dt url delayed_moov_atom (frame_number # rest) (delayed_frame_list, made) =
     (let (delayed_frame, made') =
            delayed_call ''camhd.get_frame''
              [ArgStr url, ArgInt frame_number, ArgStr fmt, ArgDelayed delayed_moov_atom] made
      in frames_loop fmt shp dt url delayed_moov_atom rest
           (delayed_frame_list @ [from_delayed delayed_frame shp dt], made'))"

fun urls_loop ::
  "string \<Rightarrow> nat list \<Rightarrow> dtype \<Rightarrow> string list \<Rightarrow> int list
     \<Rightarrow> dask_array list \<times> delayed list \<Rightarrow> dask_array list \<times> delayed list" where
  "urls_loop fmt shp dt [] frame_numbers st = st"
| "urls_loop fmt shp dt (url # rest) frame_numbers (delayed_frame_list, made) =
     (let (delayed_moov_atom, made') = delayed_call ''camhd.get_moov_atom'' [ArgStr url] made
      in urls_loop fmt shp dt rest frame_numbers
           (frames_loop fmt shp dt url delayed_moov_atom frame_numbers (delayed_frame_list, made')))"

definition delayed_frame_list ::
  "string \<Rightarrow> nat list \<Rightarrow> dtype \<Rightarrow> string list \<Rightarrow> int list \<Rightarrow> dask_array list \<times> delayed list" where
  "delayed_frame_list fmt shp dt urls frame_numbers = urls_loop fmt shp dt urls frame_numbers ([], [])"

text \<open>
  \<^verbatim>\<open>dsa.stack\<close> puts arrays of one shape along a new first axis, one chunk per array; it
  refuses an empty list and arrays of different shapes.
\<close>

record stacked_array =
  stacked_shape :: "nat list"
  frames :: "dask_array list"

definition stack :: "dask_array list \<Rightarrow> error + stacked_array" where
  "stack seq =
     (case seq of
        [] \<Rightarrow> Inl ValueError
      | a # _ \<Rightarrow>
          if \<forall>x \<in> set seq. declared_shape x = declared_shape a
          then Inr \<lparr>stacked_shape = length seq # declared_shape a, frames = seq\<rparr>
          else Inl ValueError)"

definition delayed_frame_array ::
  "string \<Rightarrow> nat list \<Rightarrow> dtype \<Rightarrow> string list \<Rightarrow> int list \<Rightarrow> error + stacked_array" where
  "delayed_frame_array fmt shp dt urls frame_numbers =
     stack (fst (delayed_frame_list fmt shp dt urls frame_numbers))"

section \<open>The notebook functions over an arbitrary library\<close>

text \<open>
  The same three functions with the library left open: every statement of the source
  that evaluates a library expression is one field of the record, a function that either
  raises (\<open>Inl\<close>) or returns (\<open>Inr\<close>). \<open>np_radius\<close> is \<^verbatim>\<open>np.sqrt(xx**2+yy**2)\<close>,
  \<open>np_band_pass\<close> the expression assigned to \<^verbatim>\<open>bff\<close>, \<open>np_squeeze_plane\<close> is
  \<^verbatim>\<open>np.squeeze(frame[0, 0:1024, 0:1024])\<close>, \<open>np_slice\<close> is \<^verbatim>\<open>frame[0:1024, 0:1024]\<close>,
  \<open>np_count_above\<close> is \<^verbatim>\<open>np.array([(np.absolute(I_filt)>4000).sum()])\<close>, and
  \<open>np_newaxis\<close> is the new first axis that stacking gives a frame. The source has no
  \<^verbatim>\<open>try\<close> statement, so each function stops at the first statement that raises.
\<close>

record ('e, 'f, 'm, 'c, 'r) numpy =
  np_arange :: "real \<Rightarrow> real \<Rightarrow> 'e + 'm"
  np_meshgrid :: "'m \<Rightarrow> 'm \<Rightarrow> 'e + 'm \<times> 'm"
  np_radius :: "'m \<Rightarrow> 'm \<Rightarrow> 'e + 'm"
  np_band_pass :: "'m \<Rightarrow> real \<Rightarrow> real \<Rightarrow> nat \<Rightarrow> 'e + 'm"
  np_newaxis :: "'f \<Rightarrow> 'e + 'f"
  np_ndim :: "'f \<Rightarrow> nat"
  np_shape0 :: "'f \<Rightarrow> nat"
  np_squeeze_plane :: "'f \<Rightarrow> 'e + 'f"
  np_slice :: "'f \<Rightarrow> 'e + 'f"
  np_fft2 :: "'f \<Rightarrow> 'e + 'c"
  np_fftshift :: "'c \<Rightarrow> 'e + 'c"
  np_multiply :: "'c \<Rightarrow> 'm \<Rightarrow> 'e + 'c"
  np_ifftshift :: "'c \<Rightarrow> 'e + 'c"
  np_ifft2 :: "'c \<Rightarrow> 'e + 'c"
  np_count_above :: "'c \<Rightarrow> 'e + 'r"

definition butterworth_with :: "('e, 'f, 'm, 'c, 'r) numpy \<Rightarrow> real \<Rightarrow> real \<Rightarrow> nat \<Rightarrow> 'e + 'm" where
  "butterworth_with np d1 d2 n =
     (case np_arange np (- 1024 / 2 + 0.5) (1024 / 2 + 1 - 0.5) of
        Inl e \<Rightarrow> Inl e
      | Inr x \<Rightarrow>
          (case np_meshgrid np x x of
             Inl e \<Rightarrow> Inl e
           | Inr (xx, yy) \<Rightarrow>
               (case np_radius np xx yy of
                  Inl e \<Rightarrow> Inl e
                | Inr d \<Rightarrow> np_band_pass np d d1 d2 n)))"

definition frame_filter_with ::
  "('e, 'f, 'm, 'c, 'r) numpy \<Rightarrow> 'f \<Rightarrow> real \<Rightarrow> real \<Rightarrow> nat \<Rightarrow> 'e + 'c" where
  "frame_filter_with np frame d1 d2 n =
     (case (if np_ndim np frame = 3 \<and> np_shape0 np frame = 1
            then np_squeeze_plane np frame else np_slice np frame) of
        Inl e \<Rightarrow> Inl e
      | Inr I \<Rightarrow>
          (case butterworth_with np d1 d2 n of
             Inl e \<Rightarrow> Inl e
           | Inr bff \<Rightarrow>
               (case np_fft2 np I of
                  Inl e \<Rightarrow> Inl e
                | Inr I_fft \<Rightarrow>
                    (case np_fftshift np I_fft of
                       Inl e \<Rightarrow> Inl e
                     | Inr I_fft_shift \<Rightarrow>
                         (case np_multiply np I_fft_shift bff of
                            Inl e \<Rightarrow> Inl e
                          | Inr I_fft_shift_filt \<Rightarrow>
                              (case np_ifftshift np I_fft_shift_filt of
                                 Inl e \<Rightarrow> Inl e
                               | Inr I_fft_filt \<Rightarrow> np_ifft2 np I_fft_filt))))))"

definition calc_floc_proxy_with ::
  "('e, 'f, 'm, 'c, 'r) numpy \<Rightarrow> 'f \<Rightarrow> real \<Rightarrow> real \<Rightarrow> nat \<Rightarrow> 'e + 'r" where
  "calc_floc_proxy_with np frame d1 d2 n =
     (case frame_filter_with np frame d1 d2 n of
        Inl e \<Rightarrow> Inl e
      | Inr I_filt \<Rightarrow> np_count_above np I_filt)"

text \<open>The library as it is modelled in the sections above.\<close>

definition numpy_model :: "(error, real ndarray, real ndarray, complex ndarray, int ndarray) numpy" where
  "numpy_model =
     \<lparr>np_arange = (\<lambda>a b. Inr (arange a b)),
      np_meshgrid = (\<lambda>x y. Inr (meshgrid x y)),
      np_radius = (\<lambda>xx yy. Inr (nd_map sqrt (nd_map2 (+) (nd_map (\<lambda>v. v ^ 2) xx) (nd_map (\<lambda>v. v ^ 2) yy)))),
      np_band_pass = (\<lambda>d d1 d2 n. Inr (nd_map2 (*)
                  (nd_map (\<lambda>v. 1 - (1 / (1 + v))) (nd_map (\<lambda>v. v ^ (2 * n)) (nd_map (\<lambda>v. v / d1) d)))
                  (nd_map (\<lambda>v. 1 / (1 + v)) (nd_map (\<lambda>v. v ^ (2 * n)) (nd_map (\<lambda>v. v / d2) d))))),
      np_newaxis = (\<lambda>a. Inr \<lparr>shape = 1 # shape a, item = (\<lambda>ix. item a (tl ix))\<rparr>),
      np_ndim = ndim,
      np_shape0 = (\<lambda>a. shape a ! 0),
      np_squeeze_plane = (\<lambda>a. case index0_slice2 a of Inl e \<Rightarrow> Inl e | Inr v \<Rightarrow> Inr (squeeze v)),
      np_slice = slice2,
      np_fft2 = (\<lambda>a. fft2 (nd_map complex_of_real a)),
      np_fftshift = (\<lambda>a. Inr (fftshift a)),
      np_multiply = (\<lambda>a b. multiply a (nd_map complex_of_real b)),
      np_ifftshift = (\<lambda>a. Inr (ifftshift a)),
      np_ifft2 = ifft2,
      np_count_above = (\<lambda>a. Inr (np_array [count_true (nd_map (\<lambda>v. 4000 < v) (nd_map cmod a))]))\<rparr>"

text \<open>
  The video library: the fetch of the moov atom of a file and the fetch of one frame.
  A chunk of the deferred \<^verbatim>\<open>floc_proxy\<close> array is computed by running the graph of
  one frame: both fetches, the new axis, and \<^verbatim>\<open>calc_floc_proxy\<close> on the block.
\<close>

record ('e, 'v, 'f) camhd =
  get_moov_atom :: "string \<Rightarrow> 'e + 'v"
  get_frame :: "string \<Rightarrow> int \<Rightarrow> string \<Rightarrow> 'v \<Rightarrow> 'e + 'f"



section \<open>The filter functions on arrays in memory\<close>

text \<open>
  To say what a call reads and writes, the functions are modelled once more on arrays
  that live in memory. The memory holds numbered buffers of reals, complex numbers,
  truth values and integers, the number of buffers allocated so far, and the global
  variables of the notebook. An array object is a view: its shape and, for every index,
  the buffer and the position in the buffer where the entry is stored. Indexing, slicing
  and \<^verbatim>\<open>np.squeeze\<close> return views of the buffer of their argument, so \<open>crop\<close> applies to
  views as it is; every other numpy call below returns a new array, which is written
  into the next free buffer. The names \<^verbatim>\<open>np\<close> and \<^verbatim>\<open>butterworth\<close> that the functions
  look up are taken as fixed.
\<close>

type_synonym view = "(nat \<times> nat list) ndarray"

datatype pyval = Number real | Array view

record memory =
  real_buffers :: "nat \<Rightarrow> nat list \<Rightarrow> real"
  complex_buffers :: "nat \<Rightarrow> nat list \<Rightarrow> complex"
  bool_buffers :: "nat \<Rightarrow> nat list \<Rightarrow> bool"
  int_buffers :: "nat \<Rightarrow> nat list \<Rightarrow> int"
  allocated :: nat
  globals :: "string \<Rightarrow> pyval option"

definition read_real :: "memory \<Rightarrow> view \<Rightarrow> real ndarray" where
  "read_real m v = nd_map (\<lambda>(b, ix). real_buffers m b ix) v"

definition read_complex :: "memory \<Rightarrow> view \<Rightarrow> complex ndarray" where
  "read_complex m v = nd_map (\<lambda>(b, ix). complex_buffers m b ix) v"

definition read_bool :: "memory \<Rightarrow> view \<Rightarrow> bool ndarray" where
  "read_bool m v = nd_map (\<lambda>(b, ix). bool_buffers m b ix) v"

definition read_int :: "memory \<Rightarrow> view \<Rightarrow> int ndarray" where
  "read_int m v = nd_map (\<lambda>(b, ix). int_buffers m b ix) v"

definition whole :: "nat \<Rightarrow> nat list \<Rightarrow> view" where
  "whole b s = \<lparr>shape = s, item = Pair b\<rparr>"

definition new_real :: "memory \<Rightarrow> real ndarray \<Rightarrow> view \<times> memory" where
  "new_real m a =
     (whole (allocated m) (shape a),
      m\<lparr>real_buffers := (real_buffers m)(allocated m := item a), allocated := Suc (allocated m)\<rparr>)"

definition new_complex :: "memory \<Rightarrow> complex ndarray \<Rightarrow> view \<times> memory" where
  "new_complex m a =
     (whole (allocated m) (shape a),
      m\<lparr>complex_buffers := (complex_buffers m)(allocated m := item a), allocated := Suc (allocated m)\<rparr>)"

definition new_bool :: "memory \<Rightarrow> bool ndarray \<Rightarrow> view \<times> memory" where
  "new_bool m a =
     (whole (allocated m) (shape a),
      m\<lparr>bool_buffers := (bool_buffers m)(allocated m := item a), allocated := Suc (allocated m)\<rparr>)"

definition new_int :: "memory \<Rightarrow> int ndarray \<Rightarrow> view \<times> memory" where
  "new_int m a =
     (whole (allocated m) (shape a),
      m\<lparr>int_buffers := (int_buffers m)(allocated m := item a), allocated := Suc (allocated m)\<rparr>)"

text \<open>The numpy calls of \<^verbatim>\<open>butterworth\<close>: every operator of an arithmetic expression
  allocates its result.\<close>

definition arange_st :: "memory \<Rightarrow> real \<Rightarrow> real \<Rightarrow> view \<times> memory" where
  "arange_st m start stop = new_real m (arange start stop)"

definition meshgrid_st :: "memory \<Rightarrow> view \<Rightarrow> view \<Rightarrow> (view \<times> view) \<times> memory" where
  "meshgrid_st m x y =
     (let (xx, yy) = meshgrid (read_real m x) (read_real m y);
          (vx, m) = new_real m xx;
          (vy, m) = new_real m yy
      in ((vx, vy), m))"

definition map_st :: "(real \<Rightarrow> real) \<Rightarrow> memory \<Rightarrow> view \<Rightarrow> view \<times> memory" where
  "map_st f m v = new_real m (nd_map f (read_real m v))"

definition map2_st :: "(real \<Rightarrow> real \<Rightarrow> real) \<Rightarrow> memory \<Rightarrow> view \<Rightarrow> view \<Rightarrow> view \<times> memory" where
  "map2_st f m v w = new_real m (nd_map2 f (read_real m v) (read_real m w))"

definition radius_st :: "memory \<Rightarrow> view \<Rightarrow> view \<Rightarrow> view \<times> memory" where
  "radius_st m xx yy =
     (let (xx2, m) = map_st (\<lambda>v. v ^ 2) m xx;
          (yy2, m) = map_st (\<lambda>v. v ^ 2) m yy;
          (s, m) = map2_st (+) m xx2 yy2
      in map_st sqrt m s)"

definition low_cut_st :: "memory \<Rightarrow> view \<Rightarrow> real \<Rightarrow> nat \<Rightarrow> view \<times> memory" where
  "low_cut_st m d d1 n =
     (let (q, m) = map_st (\<lambda>v. v / d1) m d;
          (p, m) = map_st (\<lambda>v. v ^ (2 * n)) m q;
          (a, m) = map_st (\<lambda>v. 1 + v) m p;
          (r, m) = map_st (\<lambda>v. 1 / v) m a
      in map_st (\<lambda>v. 1 - v) m r)"

definition high_cut_st :: "memory \<Rightarrow> view \<Rightarrow> real \<Rightarrow> nat \<Rightarrow> view \<times> memory" where
  "high_cut_st m d d2 n =
     (let (q, m) = map_st (\<lambda>v. v / d2) m d;
          (p, m) = map_st (\<lambda>v. v ^ (2 * n)) m q;
          (a, m) = map_st (\<lambda>v. 1 + v) m p
      in map_st (\<lambda>v. 1 / v) m a)"

definition butterworth_st :: "memory \<Rightarrow> real \<Rightarrow> real \<Rightarrow> nat \<Rightarrow> view \<times> memory" where
  "butterworth_st m d1 d2 n =
     (let (x, m) = arange_st m (- 1024 / 2 + 0.5) (1024 / 2 + 1 - 0.5);
          ((xx, yy), m) = meshgrid_st m x x;
          (d, m) = radius_st m xx yy;
          (lo, m) = low_cut_st m d d1 n;
          (hi, m) = high_cut_st m d d2 n
      in map2_st (*) m lo hi)"

text \<open>The numpy calls of \<^verbatim>\<open>frame_filter\<close> and \<^verbatim>\<open>calc_floc_proxy\<close>. The sum of the
  boolean array is a number, not an array.\<close>

definition fft2_st :: "memory \<Rightarrow> view \<Rightarrow> (error + view) \<times> memory" where
  "fft2_st m v =
     (case fft2 (nd_map complex_of_real (read_real m v)) of
        Inl e \<Rightarrow> (Inl e, m)
      | Inr a \<Rightarrow> (let (r, m) = new_complex m a in (Inr r, m)))"

definition fftshift_st :: "memory \<Rightarrow> view \<Rightarrow> view \<times> memory" where
  "fftshift_st m v = new_complex m (fftshift (read_complex m v))"

definition multiply_st :: "memory \<Rightarrow> view \<Rightarrow> view \<Rightarrow> (error + view) \<times> memory" where
  "multiply_st m v w =
     (case multiply (read_complex m v) (nd_map complex_of_real (read_real m w)) of
        Inl e \<Rightarrow> (Inl e, m)
      | Inr a \<Rightarrow> (let (r, m) = new_complex m a in (Inr r, m)))"

definition ifftshift_st :: "memory \<Rightarrow> view \<Rightarrow> view \<times> memory" where
  "ifftshift_st m v = new_complex m (ifftshift (read_complex m v))"

definition ifft2_st :: "memory \<Rightarrow> view \<Rightarrow> (error + view) \<times> memory" where
  "ifft2_st m v =
     (case ifft2 (read_complex m v) of
        Inl e \<Rightarrow> (Inl e, m)
      | Inr a \<Rightarrow> (let (r, m) = new_complex m a in (Inr r, m)))"

definition frame_filter_st ::
  "memory \<Rightarrow> view \<Rightarrow> real \<Rightarrow> real \<Rightarrow> nat \<Rightarrow> (error + view) \<times> memory" where
  "frame_filter_st m frame d1 d2 n =
     (case crop frame of
        Inl e \<Rightarrow> (Inl e, m)
      | Inr I \<Rightarrow>
          (let (bff, m) = butterworth_st m d1 d2 n
           in (case fft2_st m I of
                 (Inl e, m) \<Rightarrow> (Inl e, m)
               | (Inr I_fft, m) \<Rightarrow>
                   (let (I_fft_shift, m) = fftshift_st m I_fft
                    in (case multiply_st m I_fft_shift bff of
                          (Inl e, m) \<Rightarrow> (Inl e, m)
                        | (Inr I_fft_shift_filt, m) \<Rightarrow>
                            (let (I_fft_filt, m) = ifftshift_st m I_fft_shift_filt
                             in ifft2_st m I_fft_filt))))))"

definition absolute_st :: "memory \<Rightarrow> view \<Rightarrow> view \<times> memory" where
  "absolute_st m v = new_real m (nd_map cmod (read_complex m v))"

definition greater_st :: "memory \<Rightarrow> view \<Rightarrow> real \<Rightarrow> view \<times> memory" where
  "greater_st m v c = new_bool m (nd_map (\<lambda>x. c < x) (read_real m v))"

definition sum_st :: "memory \<Rightarrow> view \<Rightarrow> int" where
  "sum_st m v = count_true (read_bool m v)"

definition array_st :: "memory \<Rightarrow> int list \<Rightarrow> view \<times> memory" where
  "array_st m xs = new_int m (np_array xs)"

definition calc_floc_proxy_st ::
  "memory \<Rightarrow> view \<Rightarrow> real \<Rightarrow> real \<Rightarrow> nat \<Rightarrow> (error + view) \<times> memory" where
  "calc_floc_proxy_st m frame d1 d2 n =
     (case frame_filter_st m frame d1 d2 n of
        (Inl e, m) \<Rightarrow> (Inl e, m)
      | (Inr I_filt, m) \<Rightarrow>
          (let (magnitude, m) = absolute_st m I_filt;
               (above, m) = greater_st m magnitude 4000;
               (proxy, m) = array_st m [sum_st m above]
           in (Inr proxy, m)))"

text \<open>
  \<open>unchanged m m'\<close>: the memory \<open>m'\<close> has all buffers of \<open>m\<close> with their contents and
  the same global variables; it may have more buffers. \<open>in_memory m v\<close>: the view \<open>v\<close>
  lies in buffers allocated in \<open>m\<close>. The \<open>gives\<close> predicates say that a call leaves the
  memory unchanged in this sense and returns a view of the given contents, or the given
  error.
\<close>

definition unchanged :: "memory \<Rightarrow> memory \<Rightarrow> bool" where
  "unchanged m m' \<longleftrightarrow>
     allocated m \<le> allocated m' \<and> globals m' = globals m \<and>
     (\<forall>b < allocated m.
        real_buffers m' b = real_buffers m b \<and> complex_buffers m' b = complex_buffers m b \<and>
        bool_buffers m' b = bool_buffers m b \<and> int_buffers m' b = int_buffers m b)"

definition in_memory :: "memory \<Rightarrow> view \<Rightarrow> bool" where
  "in_memory m v \<longleftrightarrow> (\<forall>ix. fst (item v ix) < allocated m)"

definition gives_real :: "memory \<Rightarrow> view \<times> memory \<Rightarrow> real ndarray \<Rightarrow> bool" where
  "gives_real m r a \<longleftrightarrow> unchanged m (snd r) \<and> in_memory (snd r) (fst r) \<and> read_real (snd r) (fst r) = a"

definition gives_complex :: "memory \<Rightarrow> view \<times> memory \<Rightarrow> complex ndarray \<Rightarrow> bool" where
  "gives_complex m r a \<longleftrightarrow>
     unchanged m (snd r) \<and> in_memory (snd r) (fst r) \<and> read_complex (snd r) (fst r) = a"

definition gives_result ::
  "memory \<Rightarrow> (error + view) \<times> memory \<Rightarrow> (memory \<Rightarrow> view \<Rightarrow> 'a) \<Rightarrow> error + 'a \<Rightarrow> bool" where
  "gives_result m r rd x \<longleftrightarrow>
     unchanged m (snd r) \<and>
     (case fst r of Inl e \<Rightarrow> x = Inl e | Inr v \<Rightarrow> in_memory (snd r) v \<and> x = Inr (rd (snd r) v))"

text \<open>Two memories that hold the same grey frame, in different buffers and beside
  different global variables and other arrays.\<close>

definition empty_memory :: memory where
  "empty_memory =
     \<lparr>real_buffers = (\<lambda>b ix. 0), complex_buffers = (\<lambda>b ix. 0), bool_buffers = (\<lambda>b ix. False),
      int_buffers = (\<lambda>b ix. 0), allocated = 0, globals = Map.empty\<rparr>"

definition first_memory :: memory where
  "first_memory = snd (new_real empty_memory gray_frame)"

definition second_memory :: memory where
  "second_memory =
     snd (new_real
       (snd (new_real (empty_memory\<lparr>globals := [''d1'' \<mapsto> Number 20, ''n'' \<mapsto> Number 4]\<rparr>)
          small_frame))
       gray_frame)"

section \<open>Closed forms of the loops\<close>


text \<open>
  The nodes of the task graph: the fetch of the moov atom of a file, the fetch of one
  frame, the frame nodes of one file in the order of the frame numbers, these lists for
  all files, and the moov-atom nodes of all files when each file has \<open>m\<close> frame numbers.
  The first argument after the pixel format is the key of the first node.
\<close>

definition moov_node :: "nat \<Rightarrow> string \<Rightarrow> delayed" where
  "moov_node k url = Delayed k ''camhd.get_moov_atom'' [ArgStr url]"

definition frame_node :: "string \<Rightarrow> nat \<Rightarrow> string \<Rightarrow> int \<Rightarrow> delayed \<Rightarrow> delayed" where
  "frame_node fmt k url frame_number moov =
     Delayed k ''camhd.get_frame'' [ArgStr url, ArgInt frame_number, ArgStr fmt, ArgDelayed moov]"

fun frame_nodes :: "string \<Rightarrow> string \<Rightarrow> delayed \<Rightarrow> nat \<Rightarrow> int list \<Rightarrow> delayed list" where
  "frame_nodes fmt url moov k [] = []"
| "frame_nodes fmt url moov k (f # fs) = frame_node fmt k url f moov # frame_nodes fmt url moov (Suc k) fs"

fun frame_blocks :: "string \<Rightarrow> nat \<Rightarrow> string list \<Rightarrow> int list \<Rightarrow> delayed list list" where
  "frame_blocks fmt k [] fns = []"
| "frame_blocks fmt k (u # us) fns =
     frame_nodes fmt u (moov_node k u) (Suc k) fns # frame_blocks fmt (k + Suc (length fns)) us fns"

fun moov_nodes :: "nat \<Rightarrow> nat \<Rightarrow> string list \<Rightarrow> delayed list" where
  "moov_nodes m k [] = []"
| "moov_nodes m k (u # us) = moov_node k u # moov_nodes m (k + Suc m) us"

section \<open>Properties of the mask\<close>

lemma shape_butterworth: "shape (butterworth d1 d2 n) = [1024, 1024]"
  by (simp add: butterworth_def arange_def meshgrid_def nd_map_def nd_map2_def Let_def)

lemma item_butterworth:
  "item (butterworth d1 d2 n) [i, j] =
     (1 - 1 / (1 + (sqrt ((real j - 511.5)\<^sup>2 + (real i - 511.5)\<^sup>2) / d1) ^ (2 * n))) *
     (1 / (1 + (sqrt ((real j - 511.5)\<^sup>2 + (real i - 511.5)\<^sup>2) / d2) ^ (2 * n)))"
  by (simp add: butterworth_def arange_def meshgrid_def nd_map_def nd_map2_def Let_def
      algebra_simps)

lemma butterworth_rotate:
  assumes "i < 1024" "j < 1024"
  shows "item (butterworth d1 d2 n) [1023 - i, 1023 - j] = item (butterworth d1 d2 n) [i, j]"
proof -
  have a: "(real (1023 - k) - 511.5)\<^sup>2 = (real k - 511.5)\<^sup>2" if "k < 1024" for k
  proof -
    have "real (1023 - k) - 511.5 = - (real k - 511.5)"
      using that by (simp add: of_nat_diff)
    then show ?thesis by (simp only: power2_minus)
  qed
  show ?thesis
    unfolding item_butterworth by (simp only: a [OF assms(1)] a [OF assms(2)])
qed


subsection \<open>The shape paths of the filter\<close>

lemma crop_2d:
  assumes "shape frame = [h, w]" "1024 \<le> h" "1024 \<le> w"
  shows "crop frame = Inr \<lparr>shape = [1024, 1024], item = item frame\<rparr>"
  using assms by (simp add: crop_def ndim_def slice2_def)

lemma crop_3d:
  assumes "shape frame = [1, h, w]" "1024 \<le> h" "1024 \<le> w"
  shows "crop frame =
    Inr \<lparr>shape = [1024, 1024], item = (\<lambda>ix. item frame (0 # unsqueeze_index [1024, 1024] ix))\<rparr>"
  using assms by (simp add: crop_def ndim_def index0_slice2_def squeeze_def)

lemma fft2_2d:
  assumes "shape a = [M, N]" "0 < M" "0 < N"
  shows "fft2 a =
    Inr \<lparr>shape = [M, N],
         item = (\<lambda>ix. dft2 (- 1) M N (\<lambda>m n. item a [m, n]) (ix ! 0) (ix ! 1))\<rparr>"
  using assms by (simp add: fft2_def ndim_def)

lemma ifft2_2d:
  assumes "shape a = [M, N]" "0 < M" "0 < N"
  shows "ifft2 a =
    Inr \<lparr>shape = [M, N],
         item = (\<lambda>ix. dft2 1 M N (\<lambda>m n. item a [m, n]) (ix ! 0) (ix ! 1) / of_nat (M * N))\<rparr>"
  using assms by (simp add: ifft2_def ndim_def)

lemma multiply_same_2d:
  assumes "shape a = [M, N]" "shape b = [M, N]"
  shows "multiply a b =
    Inr \<lparr>shape = [M, N],
         item = (\<lambda>ix. item a (broadcast_index [M, N] ix) * item b (broadcast_index [M, N] ix))\<rparr>"
  using assms by (simp add: multiply_def broadcast_shapes_def)

lemma frame_filter_cropped:
  assumes "crop frame = Inr I" "shape I = [1024, 1024]"
  shows "\<exists>R. frame_filter frame d1 d2 n = Inr R \<and> shape R = [1024, 1024] \<and>
     (\<forall>i j. item R [i, j] = filter_steps d1 d2 n (\<lambda>r c. complex_of_real (item I [r, c])) i j)"
proof -
  let ?sh = "[1024, 1024] :: nat list"
  have 1: "fft2 (nd_map complex_of_real I) =
      Inr \<lparr>shape = ?sh,
           item = (\<lambda>ix. dft2 (- 1) 1024 1024 (\<lambda>m n. complex_of_real (item I [m, n]))
                          (ix ! 0) (ix ! 1))\<rparr>"
    using fft2_2d [of "nd_map complex_of_real I" 1024 1024] assms(2) by (simp add: nd_map_def)
  have 2: "multiply (fftshift \<lparr>shape = ?sh, item = g\<rparr>) (nd_map complex_of_real (butterworth d1 d2 n)) =
      Inr \<lparr>shape = ?sh,
           item = (\<lambda>ix. item (fftshift \<lparr>shape = ?sh, item = g\<rparr>) (broadcast_index ?sh ix) *
                         complex_of_real (item (butterworth d1 d2 n) (broadcast_index ?sh ix)))\<rparr>"
    for g :: "nat list \<Rightarrow> complex"
    using multiply_same_2d [of "fftshift \<lparr>shape = ?sh, item = g\<rparr>" 1024 1024
        "nd_map complex_of_real (butterworth d1 d2 n)"]
    by (simp add: fftshift_def nd_map_def shape_butterworth)
  have 3: "ifft2 (ifftshift \<lparr>shape = ?sh, item = g\<rparr>) =
      Inr \<lparr>shape = ?sh,
           item = (\<lambda>ix. dft2 1 1024 1024 (\<lambda>m n. item (ifftshift \<lparr>shape = ?sh, item = g\<rparr>) [m, n])
                          (ix ! 0) (ix ! 1) / of_nat (1024 * 1024))\<rparr>"
    for g :: "nat list \<Rightarrow> complex"
    using ifft2_2d [of "ifftshift \<lparr>shape = ?sh, item = g\<rparr>" 1024 1024]
    by (simp add: ifftshift_def)
  have 4: "item (ifftshift \<lparr>shape = ?sh, item = g\<rparr>) [m, k] =
      g [(m + 512) mod 1024, (k + 512) mod 1024]"
    for g :: "nat list \<Rightarrow> complex" and m k
    by (simp add: ifftshift_def)
  have 5: "item (fftshift \<lparr>shape = ?sh, item = g\<rparr>) [m, k] =
      g [(m + 512) mod 1024, (k + 512) mod 1024]"
    for g :: "nat list \<Rightarrow> complex" and m k
    by (simp add: fftshift_def add.commute)
  have 6: "broadcast_index ?sh [m, k] = [m, k]" for m k
    by (simp add: broadcast_index_def)
  show ?thesis
    unfolding frame_filter_def Let_def assms(1) sum.case 1 2 3
    apply (simp only: 4 5 6 filter_steps_def shift_1024_def mask_1024_def)
    apply (intro exI conjI allI)
      apply (rule refl)
     apply (simp only: ndarray.simps)
    apply (simp only: ndarray.simps nth_Cons_0 One_nat_def nth_Cons_Suc)
    done
qed

lemma frame_filter_layouts:
  assumes "shape frame = [h, w] \<or> shape frame = [1, h, w]" "1024 \<le> h" "1024 \<le> w"
  shows "\<exists>R. frame_filter frame d1 d2 n = Inr R \<and> shape R = [1024, 1024] \<and>
     (\<forall>i j. item R [i, j] = filter_steps d1 d2 n (subimage frame) i j)"
  using assms(1)
proof
  assume s: "shape frame = [h, w]"
  show ?thesis
    using frame_filter_cropped [OF crop_2d [OF s assms(2,3)], of d1 d2 n] s
    by (simp add: subimage_def ndim_def)
next
  assume s: "shape frame = [1, h, w]"
  show ?thesis
    using frame_filter_cropped [OF crop_3d [OF s assms(2,3)], of d1 d2 n] s
    by (simp add: subimage_def ndim_def)
qed

subsection \<open>Counting the entries of a two-dimensional array\<close>

lemma indices_2d: "indices [a, b] = concat (map (\<lambda>i. map (\<lambda>j. [i, j]) [0..<b]) [0..<a])"
  by (simp add: comp_def)

lemma distinct_indices: "distinct (indices s)"
proof (induction s)
  case Nil
  show ?case by simp
next
  case (Cons n ns)
  let ?rows = "map (\<lambda>i. map ((#) i) (indices ns)) [0..<n]"
  have rows: "distinct (removeAll [] ?rows)"
  proof (cases "indices ns = []")
    case True
    then have "removeAll [] ?rows = []"
      by (simp add: removeAll_filter_not_eq filter_empty_conv)
    then show ?thesis by simp
  next
    case False
    then obtain x xs where "indices ns = x # xs"
      by (cases "indices ns") auto
    then have "inj_on (\<lambda>i. map ((#) i) (indices ns)) (set [0..<n])"
      by (auto simp: inj_on_def)
    then have "distinct ?rows"
      by (simp add: distinct_map)
    then show ?thesis
      by (rule distinct_removeAll)
  qed
  show ?case
    unfolding indices.simps distinct_concat_iff
    using rows Cons by (auto simp: distinct_map)
qed

lemma set_indices_2d: "set (indices [a, b]) = (\<lambda>(i, j). [i, j]) ` ({..<a} \<times> {..<b})"
  by (auto simp: indices_2d image_iff)

lemma count_true_2d:
  "count_true \<lparr>shape = [a, b], item = P\<rparr> = int (card {(i, j). i < a \<and> j < b \<and> P [i, j]})"
proof -
  have "length (filter P (indices [a, b])) = card ({ix. P ix} \<inter> set (indices [a, b]))"
    using distinct_length_filter [OF distinct_indices] .
  also have "{ix. P ix} \<inter> set (indices [a, b]) = (\<lambda>(i, j). [i, j]) ` {(i, j). i < a \<and> j < b \<and> P [i, j]}"
    unfolding set_indices_2d by auto
  also have "card \<dots> = card {(i, j). i < a \<and> j < b \<and> P [i, j]}"
    by (rule card_image) (auto simp: inj_on_def)
  finally show ?thesis
    by (simp add: count_true_def)
qed

section \<open>Claims about the mask\<close>



text \<open>
  Claim C10. For positive \<open>d1\<close>, \<open>d2\<close>, \<open>n\<close> the mask is unchanged by a rotation of 180
  degrees: the entries at \<open>(i, j)\<close> and at \<open>(1023 - i, 1023 - j)\<close> are equal for all
  \<open>i\<close>, \<open>j\<close> below 1024.
\<close>

theorem butterworth_rotation_symmetric:
  assumes "0 < d1" "0 < d2" "0 < n" "i < 1024" "j < 1024"
  shows "item (butterworth d1 d2 n) [i, j] = item (butterworth d1 d2 n) [1023 - i, 1023 - j]"
  using butterworth_rotate [OF assms(4,5)] by simp

theorem butterworth_rotation_symmetric_witness:
  "item (butterworth 20 400 4) [3, 5] = item (butterworth 20 400 4) [1020, 1018]"
  using butterworth_rotation_symmetric [of 20 400 4 3 5] by simp

section \<open>Claims about the filter and the floc proxy\<close>

text \<open>
  Claim C3 says that for every frame the filter crops to the 1024 x 1024 subimage,
  transforms, shifts, multiplies by the mask, shifts back and returns the inverse
  transform. A frame with fewer than 1024 columns has no such subimage: the cropped
  array has shape \<open>(1024, 960)\<close>, which the product with the mask rejects.
\<close>

theorem frame_filter_small_frame_raises:
  "frame_filter narrow_frame 20 400 4 = Inl ValueError"
  by (simp add: frame_filter_def crop_def narrow_frame_def ndim_def slice2_def fft2_def
      nd_map_def fftshift_def multiply_def broadcast_shapes_def shape_butterworth Let_def)

text \<open>
  Claim C3, amended. For every frame of shape \<open>(h, w)\<close> or \<open>(1, h, w)\<close> with
  \<open>h, w \<ge> 1024\<close>, \<open>frame_filter\<close> returns a 1024 x 1024 array whose entries are those of
  the described steps: the inverse transform of the shifted-back product of the mask
  with the shifted transform of the 1024 x 1024 subimage.
\<close>

theorem frame_filter_steps_on_video_frames:
  assumes "shape frame = [h, w] \<or> shape frame = [1, h, w]" "1024 \<le> h" "1024 \<le> w"
    and "i < 1024" "j < 1024"
  shows "\<exists>R. frame_filter frame d1 d2 n = Inr R \<and> shape R = [1024, 1024] \<and>
     item R [i, j] = filter_steps d1 d2 n (subimage frame) i j"
  using frame_filter_layouts [OF assms(1-3), of d1 d2 n] by blast

theorem frame_filter_steps_on_video_frames_witness:
  "\<exists>R. frame_filter gray_frame 20 400 4 = Inr R \<and> shape R = [1024, 1024] \<and>
     item R [0, 0] = filter_steps 20 400 4 (subimage gray_frame) 0 0"
  using frame_filter_steps_on_video_frames [of gray_frame 1080 1920 0 0 20 400 4]
  by (simp add: gray_frame_def)

text \<open>
  Claim C1 says that \<open>calc_floc_proxy\<close> returns a count for every input frame. For a
  frame smaller than the crop window it returns nothing: the error of the filter
  reaches the caller.
\<close>

theorem calc_floc_proxy_small_frame_raises:
  "calc_floc_proxy small_frame 20 400 4 = Inl ValueError"
  by (simp add: calc_floc_proxy_def frame_filter_def crop_def small_frame_def ndim_def slice2_def
      fft2_def nd_map_def fftshift_def multiply_def broadcast_shapes_def shape_butterworth Let_def)

text \<open>
  Claim C1, amended. For every frame of shape \<open>(h, w)\<close> or \<open>(1, h, w)\<close> with
  \<open>h, w \<ge> 1024\<close> and positive \<open>d1\<close>, \<open>d2\<close>, \<open>n\<close>, \<open>calc_floc_proxy\<close> returns an array of
  length 1 whose entry is the number of pixels of the 1024 x 1024 filtered subimage whose
  absolute value is strictly greater than 4000.
\<close>

theorem calc_floc_proxy_counts:
  assumes "shape frame = [h, w] \<or> shape frame = [1, h, w]" "1024 \<le> h" "1024 \<le> w"
    and "0 < d1" "0 < d2" "0 < n"
  shows "\<exists>I_filt R. frame_filter frame d1 d2 n = Inr I_filt \<and> shape I_filt = [1024, 1024] \<and>
     calc_floc_proxy frame d1 d2 n = Inr R \<and> shape R = [1] \<and>
     item R [0] = int (card {(i, j). i < 1024 \<and> j < 1024 \<and> 4000 < cmod (item I_filt [i, j])})"
proof -
  obtain I_filt where f: "frame_filter frame d1 d2 n = Inr I_filt" and s: "shape I_filt = [1024, 1024]"
    using frame_filter_layouts [OF assms(1-3), of d1 d2 n] by blast
  have "nd_map (\<lambda>v. 4000 < v) (nd_map cmod I_filt) =
      \<lparr>shape = [1024, 1024], item = (\<lambda>ix. 4000 < cmod (item I_filt ix))\<rparr>"
    by (simp add: nd_map_def s)
  then have "count_true (nd_map (\<lambda>v. 4000 < v) (nd_map cmod I_filt)) =
      int (card {(i, j). i < 1024 \<and> j < 1024 \<and> 4000 < cmod (item I_filt [i, j])})"
    by (simp only: count_true_2d)
  then show ?thesis
    using f s by (simp add: calc_floc_proxy_def np_array_def)
qed

theorem calc_floc_proxy_counts_witness:
  "\<exists>I_filt R. frame_filter gray_block 20 400 4 = Inr I_filt \<and> shape I_filt = [1024, 1024] \<and>
     calc_floc_proxy gray_block 20 400 4 = Inr R \<and> shape R = [1] \<and>
     item R [0] = int (card {(i, j). i < 1024 \<and> j < 1024 \<and> 4000 < cmod (item I_filt [i, j])})"
  using calc_floc_proxy_counts [of gray_block 1080 1920 20 400 4]
  by (simp add: gray_block_def)

text \<open>
  Claim C9 says that a colour frame of shape \<open>(1080, 1920, 3)\<close> is filtered to an array of
  shape \<open>(1024, 1024, 3)\<close> and that the proxy counts over the three channels. The crop
  does keep the third axis, but the transformed array of shape \<open>(1024, 1024, 3)\<close> and the
  mask of shape \<open>(1024, 1024)\<close> do not broadcast, so the filter raises on the frames that
  the \<open>rgb24\<close> notebook builds, and so does the proxy, on a frame and on a block of the
  stacked array.
\<close>

theorem frame_filter_rgb_frame_raises:
  "map_sum id shape (crop rgb_frame) = Inr [1024, 1024, 3] \<and>
   frame_filter rgb_frame 20 400 4 = Inl ValueError \<and>
   calc_floc_proxy rgb_frame 20 400 4 = Inl ValueError \<and>
   calc_floc_proxy rgb_block 20 400 4 = Inl ValueError"
  by (simp add: calc_floc_proxy_def frame_filter_def crop_def rgb_frame_def rgb_block_def ndim_def
      slice2_def fft2_def nd_map_def fftshift_def multiply_def broadcast_shapes_def
      shape_butterworth Let_def)

section \<open>Claims about the metadata table and the timestamps\<close>

text \<open>
  Claim C5. A file URL is in \<open>blob_urls\<close> if and only if the table has a row with this URL
  whose deployment is 2 and whose frame count is strictly greater than 5000 and strictly
  less than 30000.
\<close>

theorem blob_urls_selects:
  "u \<in> set (blob_urls dbcamhd) \<longleftrightarrow>
     (\<exists>r \<in> set dbcamhd. blob_url r = u \<and> deployment r = 2 \<and> 5000 < frame_count r \<and> frame_count r < 30000)"
  by (auto simp: blob_urls_def)

text \<open>In the example table the file of deployment 2 is selected and the file of
  deployment 1 is not.\<close>

theorem blob_urls_selects_witness:
  "''a.mov'' \<in> set (blob_urls example_table) \<and> ''c.mov'' \<notin> set (blob_urls example_table)"
  using blob_urls_selects [of "''a.mov''" example_table] blob_urls_selects [of "''c.mov''" example_table]
  by (simp add: example_table_def)

subsection \<open>The timestamp loops\<close>




lemma nth_concat_uniform:
  assumes "\<forall>xs \<in> set xss. length xs = n" "i < length xss" "k < n"
  shows "concat xss ! (i * n + k) = xss ! i ! k"
  using assms
proof (induction xss arbitrary: i)
  case Nil
  then show ?case by simp
next
  case (Cons xs xss)
  show ?case
  proof (cases i)
    case 0
    then show ?thesis using Cons.prems by (simp add: nth_append)
  next
    case (Suc i')
    then show ?thesis using Cons.prems Cons.IH [of i'] by (simp add: nth_append)
  qed
qed

lemma length_concat_uniform:
  assumes "\<forall>xs \<in> set xss. length xs = n"
  shows "length (concat xss) = length xss * n"
  using assms by (induction xss) simp_all






section \<open>Claims about the list of deferred frames\<close>

lemma length_frame_nodes: "length (frame_nodes fmt url moov k fns) = length fns"
  by (induction fns arbitrary: k) simp_all

lemma nth_frame_nodes:
  "i < length fns \<Longrightarrow> frame_nodes fmt url moov k fns ! i = frame_node fmt (k + i) url (fns ! i) moov"
proof (induction fns arbitrary: k i)
  case Nil
  then show ?case by simp
next
  case (Cons f fs)
  then show ?case by (cases i) simp_all
qed

lemma filter_frame_nodes:
  "filter (\<lambda>d. func d = ''camhd.get_moov_atom'') (frame_nodes fmt url moov k fns) = []"
  by (induction fns arbitrary: k) (simp_all add: frame_node_def)

lemma frames_loop_eq:
  "frames_loop fmt shp dt url moov fns (lst, made) =
     (lst @ map (\<lambda>d. from_delayed d shp dt) (frame_nodes fmt url moov (length made) fns),
      made @ frame_nodes fmt url moov (length made) fns)"
  by (induction fns arbitrary: lst made) (simp_all add: delayed_call_def frame_node_def Let_def)

lemma urls_loop_eq:
  "\<exists>made'. urls_loop fmt shp dt urls fns (lst, made) =
     (lst @ concat (map (map (\<lambda>d. from_delayed d shp dt)) (frame_blocks fmt (length made) urls fns)), made @ made') \<and>
     filter (\<lambda>d. func d = ''camhd.get_moov_atom'') made' = moov_nodes (length fns) (length made) urls"
proof (induction urls arbitrary: lst made)
  case Nil
  show ?case by simp
next
  case (Cons u us)
  let ?m = "moov_node (length made) u"
  let ?fr = "frame_nodes fmt u ?m (Suc (length made)) fns"
  obtain made' where
    1: "urls_loop fmt shp dt us fns (lst @ map (\<lambda>d. from_delayed d shp dt) ?fr, (made @ [?m]) @ ?fr) =
      ((lst @ map (\<lambda>d. from_delayed d shp dt) ?fr) @
         concat (map (map (\<lambda>d. from_delayed d shp dt)) (frame_blocks fmt (length ((made @ [?m]) @ ?fr)) us fns)),
       ((made @ [?m]) @ ?fr) @ made')"
    and 2: "filter (\<lambda>d. func d = ''camhd.get_moov_atom'') made' =
       moov_nodes (length fns) (length ((made @ [?m]) @ ?fr)) us"
    using Cons.IH by blast
  have len: "length ((made @ [?m]) @ ?fr) = length made + Suc (length fns)"
    by (simp add: length_frame_nodes)
  have step: "urls_loop fmt shp dt (u # us) fns (lst, made) =
      urls_loop fmt shp dt us fns (lst @ map (\<lambda>d. from_delayed d shp dt) ?fr, (made @ [?m]) @ ?fr)"
    using frames_loop_eq [of fmt shp dt u ?m fns lst "made @ [?m]"]
    by (simp add: delayed_call_def moov_node_def Let_def)
  show ?case
  proof (intro exI conjI)
    show "urls_loop fmt shp dt (u # us) fns (lst, made) =
      (lst @ concat (map (map (\<lambda>d. from_delayed d shp dt)) (frame_blocks fmt (length made) (u # us) fns)),
       made @ ([?m] @ ?fr @ made'))"
      unfolding step 1 len by simp
    show "filter (\<lambda>d. func d = ''camhd.get_moov_atom'') ([?m] @ ?fr @ made') =
      moov_nodes (length fns) (length made) (u # us)"
      using 2 unfolding len by (simp add: filter_frame_nodes) (simp add: moov_node_def)
  qed
qed

lemma nth_frame_blocks:
  "u < length urls \<Longrightarrow>
   frame_blocks fmt k urls fns ! u =
     frame_nodes fmt (urls ! u) (moov_node (k + u * Suc (length fns)) (urls ! u))
       (Suc (k + u * Suc (length fns))) fns"
proof (induction urls arbitrary: k u)
  case Nil
  then show ?case by simp
next
  case (Cons a urls)
  then show ?case by (cases u) (simp_all add: ac_simps)
qed

lemma length_frame_blocks: "length (frame_blocks fmt k urls fns) = length urls"
  by (induction urls arbitrary: k) simp_all

lemma set_frame_blocks: "b \<in> set (frame_blocks fmt k urls fns) \<Longrightarrow> length b = length fns"
  by (induction urls arbitrary: k) (auto simp: length_frame_nodes)

lemma moov_nodes_eq:
  "moov_nodes m k urls = map (\<lambda>u. moov_node (k + u * Suc m) (urls ! u)) [0..<length urls]"
proof (induction urls arbitrary: k)
  case Nil
  show ?case by simp
next
  case (Cons a urls)
  have "[0..<length (a # urls)] = 0 # map Suc [0..<length urls]"
    by (simp add: upt_conv_Cons map_Suc_upt del: upt_Suc)
  then show ?case
    by (simp add: Cons.IH comp_def ac_simps del: upt_Suc)
qed

lemma delayed_frame_list_eq:
  "fst (delayed_frame_list fmt shp dt urls fns) =
     concat (map (map (\<lambda>d. from_delayed d shp dt)) (frame_blocks fmt 0 urls fns)) \<and>
   filter (\<lambda>d. func d = ''camhd.get_moov_atom'') (snd (delayed_frame_list fmt shp dt urls fns)) =
     moov_nodes (length fns) 0 urls"
  using urls_loop_eq [of fmt shp dt urls fns "[]" "[]"]
  by (auto simp: delayed_frame_list_def)

text \<open>
  Claim C7 says that the stacked array has as many frames as there are URLs times frame
  numbers. With no URL selected there is no stacked array: the list is empty, and
  stacking an empty list is refused.
\<close>

theorem delayed_frame_array_no_urls:
  "delayed_frame_array ''rgb24'' [1080, 1920, 3] UInt8 [] [7200] = Inl ValueError"
  by (simp add: delayed_frame_array_def delayed_frame_list_def stack_def)

text \<open>
  Claim C7, amended. When at least one URL is selected and there is at least one frame
  number, the stacked array has \<open>|urls| * |frame_numbers|\<close> frames of the declared shape
  and type, ordered by URL and then by frame number: the frame at position
  \<open>u * |frame_numbers| + k\<close> is the deferred fetch of frame number \<open>k\<close> of URL \<open>u\<close>,
  and it refers to the one moov-atom node of its URL. The moov-atom nodes made are
  exactly one per URL, in the order of the URLs.
\<close>

theorem delayed_frame_array_frames:
  assumes "u < length urls" "k < length frame_numbers"
  shows "\<exists>A. delayed_frame_array fmt shp dt urls frame_numbers = Inr A \<and>
     stacked_shape A = (length urls * length frame_numbers) # shp \<and>
     length (frames A) = length urls * length frame_numbers \<and>
     frames A ! (u * length frame_numbers + k) =
       from_delayed
         (frame_node fmt (u * Suc (length frame_numbers) + Suc k) (urls ! u) (frame_numbers ! k)
            (moov_node (u * Suc (length frame_numbers)) (urls ! u))) shp dt \<and>
     filter (\<lambda>d. func d = ''camhd.get_moov_atom'')
         (snd (delayed_frame_list fmt shp dt urls frame_numbers)) =
       map (\<lambda>v. moov_node (v * Suc (length frame_numbers)) (urls ! v)) [0..<length urls]"
proof -
  let ?n = "length frame_numbers"
  let ?blocks = "map (map (\<lambda>d. from_delayed d shp dt)) (frame_blocks fmt 0 urls frame_numbers)"
  let ?lst = "fst (delayed_frame_list fmt shp dt urls frame_numbers)"
  have lst: "?lst = concat ?blocks"
    and moov: "filter (\<lambda>d. func d = ''camhd.get_moov_atom'')
        (snd (delayed_frame_list fmt shp dt urls frame_numbers)) = moov_nodes ?n 0 urls"
    using delayed_frame_list_eq [of fmt shp dt urls frame_numbers] by simp_all
  have uni: "\<forall>xs \<in> set ?blocks. length xs = ?n"
    by (auto dest: set_frame_blocks)
  have len: "length ?lst = length urls * ?n"
    unfolding lst using length_concat_uniform [OF uni] by (simp add: length_frame_blocks)
  have nth: "?lst ! (u * ?n + k) =
      from_delayed
         (frame_node fmt (u * Suc ?n + Suc k) (urls ! u) (frame_numbers ! k)
            (moov_node (u * Suc ?n) (urls ! u))) shp dt"
  proof -
    have "?lst ! (u * ?n + k) = ?blocks ! u ! k"
      unfolding lst by (rule nth_concat_uniform [OF uni]) (use assms in \<open>simp_all add: length_frame_blocks\<close>)
    also have "\<dots> = from_delayed (frame_blocks fmt 0 urls frame_numbers ! u ! k) shp dt"
      using assms by (simp add: length_frame_blocks nth_frame_blocks length_frame_nodes)
    finally show ?thesis
      using assms by (simp add: nth_frame_blocks nth_frame_nodes)
  qed
  have shapes: "\<forall>x \<in> set ?lst. declared_shape x = shp"
    unfolding lst by (auto simp: from_delayed_def)
  have "0 < length ?lst"
    unfolding len using assms by auto
  then obtain a as where cons: "?lst = a # as"
    by (cases ?lst) auto
  have "declared_shape a = shp"
    using shapes cons by simp
  then have "stack ?lst = Inr \<lparr>stacked_shape = length ?lst # shp, frames = ?lst\<rparr>"
    using shapes cons unfolding stack_def by (simp del: One_nat_def) 
  then show ?thesis
    unfolding delayed_frame_array_def using len nth moov by (simp add: moov_nodes_eq)
qed

theorem delayed_frame_array_frames_witness:
  "\<exists>A. delayed_frame_array ''rgb24'' [1080, 1920, 3] UInt8 [''a.mov'', ''b.mov''] [7200] = Inr A \<and>
     stacked_shape A = [2, 1080, 1920, 3] \<and>
     length (frames A) = 2 \<and>
     frames A ! 1 =
       from_delayed (frame_node ''rgb24'' 3 ''b.mov'' 7200 (moov_node 2 ''b.mov'')) [1080, 1920, 3] UInt8 \<and>
     filter (\<lambda>d. func d = ''camhd.get_moov_atom'')
         (snd (delayed_frame_list ''rgb24'' [1080, 1920, 3] UInt8 [''a.mov'', ''b.mov''] [7200])) =
       [moov_node 0 ''a.mov'', moov_node 2 ''b.mov'']"
  using delayed_frame_array_frames [of 1 "[''a.mov'', ''b.mov'']" 0 "[7200]" "''rgb24''" "[1080, 1920, 3]" UInt8]
  by (simp add: upt_rec [of 0] upt_rec [of 1] numeral_2_eq_2 numeral_3_eq_3)

section \<open>Claims about errors\<close>

lemma butterworth_with_numpy_model: "butterworth_with numpy_model d1 d2 n = Inr (butterworth d1 d2 n)"
  by (simp add: butterworth_with_def numpy_model_def butterworth_def Let_def split: prod.splits)

lemma frame_filter_with_numpy_model: "frame_filter_with numpy_model frame d1 d2 n = frame_filter frame d1 d2 n"
  unfolding frame_filter_with_def butterworth_with_numpy_model
  by (simp add: numpy_model_def frame_filter_def crop_def Let_def split: sum.splits)

lemma calc_floc_proxy_with_numpy_model:
  "calc_floc_proxy_with numpy_model frame d1 d2 n = calc_floc_proxy frame d1 d2 n"
  unfolding calc_floc_proxy_with_def frame_filter_with_numpy_model
  by (simp add: numpy_model_def calc_floc_proxy_def split: sum.splits)



section \<open>Claims about purity\<close>

lemma unchanged_refl: "unchanged m m"
  by (simp add: unchanged_def)

lemma unchanged_trans: "unchanged m1 m2 \<Longrightarrow> unchanged m2 m3 \<Longrightarrow> unchanged m1 m3"
  by (auto simp: unchanged_def)

lemma in_memory_unchanged: "unchanged m m' \<Longrightarrow> in_memory m v \<Longrightarrow> in_memory m' v"
  by (auto simp: unchanged_def in_memory_def intro: less_le_trans)

lemma read_unchanged:
  assumes "unchanged m m'" "in_memory m v"
  shows "read_real m' v = read_real m v" "read_complex m' v = read_complex m v"
    "read_bool m' v = read_bool m v" "read_int m' v = read_int m v"
  using assms
  by (auto simp: unchanged_def in_memory_def read_real_def read_complex_def read_bool_def
      read_int_def nd_map_def case_prod_unfold)

lemma new_real_gives: "gives_real m (new_real m a) a"
  by (simp add: gives_real_def new_real_def unchanged_def in_memory_def whole_def read_real_def nd_map_def)

lemma map_st_gives: "gives_real m (map_st f m v) (nd_map f (read_real m v))"
  unfolding map_st_def by (rule new_real_gives)

lemma map2_st_gives: "gives_real m (map2_st f m v w) (nd_map2 f (read_real m v) (read_real m w))"
  unfolding map2_st_def by (rule new_real_gives)

lemma gives_realE:
  assumes "gives_real m r a"
  obtains v m' where "r = (v, m')" "unchanged m m'" "in_memory m' v" "read_real m' v = a"
  using assms by (cases r) (auto simp: gives_real_def)

lemma gives_realI:
  assumes "unchanged m m'" "in_memory m' v" "read_real m' v = a"
  shows "gives_real m (v, m') a"
  using assms by (simp add: gives_real_def)

lemma radius_st_gives:
  assumes "in_memory m xx" "in_memory m yy"
  shows "gives_real m (radius_st m xx yy)
    (nd_map sqrt (nd_map2 (+) (nd_map (\<lambda>v. v ^ 2) (read_real m xx)) (nd_map (\<lambda>v. v ^ 2) (read_real m yy))))"
proof -
  obtain xx2 m1 where 1: "map_st (\<lambda>v. v ^ 2) m xx = (xx2, m1)" "unchanged m m1" "in_memory m1 xx2"
      "read_real m1 xx2 = nd_map (\<lambda>v. v ^ 2) (read_real m xx)"
    using map_st_gives by (rule gives_realE)
  obtain yy2 m2 where 2: "map_st (\<lambda>v. v ^ 2) m1 yy = (yy2, m2)" "unchanged m1 m2" "in_memory m2 yy2"
      "read_real m2 yy2 = nd_map (\<lambda>v. v ^ 2) (read_real m1 yy)"
    using map_st_gives by (rule gives_realE)
  obtain s m3 where 3: "map2_st (+) m2 xx2 yy2 = (s, m3)" "unchanged m2 m3" "in_memory m3 s"
      "read_real m3 s = nd_map2 (+) (read_real m2 xx2) (read_real m2 yy2)"
    using map2_st_gives by (rule gives_realE)
  obtain d m4 where 4: "map_st sqrt m3 s = (d, m4)" "unchanged m3 m4" "in_memory m4 d"
      "read_real m4 d = nd_map sqrt (read_real m3 s)"
    using map_st_gives by (rule gives_realE)
  have "radius_st m xx yy = (d, m4)"
    by (simp add: radius_st_def 1 2 3 4)
  moreover have "unchanged m m4"
    using 1(2) 2(2) 3(2) 4(2) by (blast intro: unchanged_trans)
  moreover have "read_real m4 d =
      nd_map sqrt (nd_map2 (+) (nd_map (\<lambda>v. v ^ 2) (read_real m xx)) (nd_map (\<lambda>v. v ^ 2) (read_real m yy)))"
    by (simp add: 4(4) 3(4) 2(4) read_unchanged(1) [OF 2(2) 1(3)] 1(4) read_unchanged(1) [OF 1(2) assms(2)])
  ultimately show ?thesis
    using 4(3) by (simp add: gives_real_def)
qed

lemma nd_map_nd_map: "nd_map f (nd_map g a) = nd_map (\<lambda>v. f (g v)) a"
  by (simp add: nd_map_def)

lemma gives_real_bind:
  assumes "gives_real m r a"
    and "\<And>v m'. unchanged m m' \<Longrightarrow> in_memory m' v \<Longrightarrow> read_real m' v = a \<Longrightarrow> gives_real m' (k v m') b"
  shows "gives_real m (case r of (v, m') \<Rightarrow> k v m') b"
proof -
  obtain v m' where r: "r = (v, m')" "unchanged m m'" "in_memory m' v" "read_real m' v = a"
    using assms(1) by (rule gives_realE)
  have "gives_real m' (k v m') b"
    using r(2-4) by (rule assms(2))
  then show ?thesis
    using r(1,2) by (auto simp: gives_real_def intro: unchanged_trans)
qed

lemma low_cut_st_gives:
  "gives_real m (low_cut_st m d d1 n)
     (nd_map (\<lambda>v. 1 - (1 / (1 + v))) (nd_map (\<lambda>v. v ^ (2 * n)) (nd_map (\<lambda>v. v / d1) (read_real m d))))"
  unfolding low_cut_st_def Let_def
  apply (rule gives_real_bind [OF map_st_gives])
  apply (rule gives_real_bind [OF map_st_gives])
  apply (rule gives_real_bind [OF map_st_gives])
  apply (rule gives_real_bind [OF map_st_gives])
  subgoal for q m1 p m2 a m3 r m4
    using map_st_gives [of m4 "\<lambda>v. 1 - v" r] by (simp add: nd_map_nd_map)
  done

lemma high_cut_st_gives:
  "gives_real m (high_cut_st m d d2 n)
     (nd_map (\<lambda>v. 1 / (1 + v)) (nd_map (\<lambda>v. v ^ (2 * n)) (nd_map (\<lambda>v. v / d2) (read_real m d))))"
  unfolding high_cut_st_def Let_def
  apply (rule gives_real_bind [OF map_st_gives])
  apply (rule gives_real_bind [OF map_st_gives])
  apply (rule gives_real_bind [OF map_st_gives])
  subgoal for q m1 p m2 a m3
    using map_st_gives [of m3 "\<lambda>v. 1 / v" a] by (simp add: nd_map_nd_map)
  done

lemma meshgrid_st_gives:
  "\<exists>vx vy m'. meshgrid_st m x y = ((vx, vy), m') \<and> unchanged m m' \<and>
     in_memory m' vx \<and> in_memory m' vy \<and>
     read_real m' vx = fst (meshgrid (read_real m x) (read_real m y)) \<and>
     read_real m' vy = snd (meshgrid (read_real m x) (read_real m y))"
  by (simp add: meshgrid_st_def new_real_def unchanged_def in_memory_def whole_def read_real_def
      nd_map_def meshgrid_def Let_def)

lemma butterworth_st_gives: "gives_real m (butterworth_st m d1 d2 n) (butterworth d1 d2 n)"
proof -
  let ?a = "- 1024 / 2 + 0.5 :: real" and ?b = "1024 / 2 + 1 - 0.5 :: real"
  obtain x m1 where 1: "arange_st m ?a ?b = (x, m1)" "unchanged m m1" "in_memory m1 x"
      "read_real m1 x = arange ?a ?b"
    using new_real_gives [of m "arange ?a ?b"] unfolding arange_st_def [symmetric]
    by (rule gives_realE)
  obtain xx yy m2 where 2: "meshgrid_st m1 x x = ((xx, yy), m2)" "unchanged m1 m2"
      "in_memory m2 xx" "in_memory m2 yy"
      "read_real m2 xx = fst (meshgrid (read_real m1 x) (read_real m1 x))"
      "read_real m2 yy = snd (meshgrid (read_real m1 x) (read_real m1 x))"
    using meshgrid_st_gives [of m1 x x] by blast
  obtain d m3 where 3: "radius_st m2 xx yy = (d, m3)" "unchanged m2 m3" "in_memory m3 d"
      "read_real m3 d = nd_map sqrt (nd_map2 (+) (nd_map (\<lambda>v. v ^ 2) (read_real m2 xx))
         (nd_map (\<lambda>v. v ^ 2) (read_real m2 yy)))"
    using radius_st_gives [OF 2(3,4)] by (rule gives_realE)
  obtain lo m4 where 4: "low_cut_st m3 d d1 n = (lo, m4)" "unchanged m3 m4" "in_memory m4 lo"
      "read_real m4 lo = nd_map (\<lambda>v. 1 - (1 / (1 + v))) (nd_map (\<lambda>v. v ^ (2 * n))
         (nd_map (\<lambda>v. v / d1) (read_real m3 d)))"
    using low_cut_st_gives by (rule gives_realE)
  obtain hi m5 where 5: "high_cut_st m4 d d2 n = (hi, m5)" "unchanged m4 m5" "in_memory m5 hi"
      "read_real m5 hi = nd_map (\<lambda>v. 1 / (1 + v)) (nd_map (\<lambda>v. v ^ (2 * n))
         (nd_map (\<lambda>v. v / d2) (read_real m4 d)))"
    using high_cut_st_gives by (rule gives_realE)
  obtain bff m6 where 6: "map2_st (*) m5 lo hi = (bff, m6)" "unchanged m5 m6" "in_memory m6 bff"
      "read_real m6 bff = nd_map2 (*) (read_real m5 lo) (read_real m5 hi)"
    using map2_st_gives by (rule gives_realE)
  have run: "butterworth_st m d1 d2 n = (bff, m6)"
    by (simp only: butterworth_st_def Let_def 1 2 3 4 5 6 prod.case)
  have keep: "unchanged m m6"
    using 1(2) 2(2) 3(2) 4(2) 5(2) 6(2) by (blast intro: unchanged_trans)
  have d: "read_real m4 d = read_real m3 d"
    using 4(2) 3(3) by (rule read_unchanged)
  have lo: "read_real m5 lo = read_real m4 lo"
    using 5(2) 4(3) by (rule read_unchanged)
  have "read_real m6 bff = butterworth d1 d2 n"
    unfolding 6(4) lo 5(4) d 4(4) 3(4) 2(5) 2(6) 1(4)
    by (simp add: butterworth_def Let_def case_prod_unfold)
  then show ?thesis
    unfolding run using keep 6(3) by (rule gives_realI [rotated 2])
qed

lemma new_complex_gives: "gives_complex m (new_complex m a) a"
  by (simp add: gives_complex_def new_complex_def unchanged_def in_memory_def whole_def
      read_complex_def nd_map_def)

lemma gives_complexE:
  assumes "gives_complex m r a"
  obtains v m' where "r = (v, m')" "unchanged m m'" "in_memory m' v" "read_complex m' v = a"
  using assms by (cases r) (auto simp: gives_complex_def)

lemma new_complex_cases:
  fixes x :: "error + complex ndarray" and m :: memory
  defines "r \<equiv> (case x of Inl e \<Rightarrow> (Inl e, m) | Inr a \<Rightarrow> (let (v, m) = new_complex m a in (Inr v, m)))"
  obtains (fail) e where "x = Inl e" "r = (Inl e, m)"
  | (ok) a v m' where "x = Inr a" "r = (Inr v, m')" "unchanged m m'" "in_memory m' v"
      "read_complex m' v = a"
proof (cases x)
  case (Inl e)
  then show ?thesis using fail by (simp add: r_def)
next
  case (Inr a)
  obtain v m' where "new_complex m a = (v, m')" "unchanged m m'" "in_memory m' v"
      "read_complex m' v = a"
    using new_complex_gives by (rule gives_complexE)
  then show ?thesis using ok Inr by (simp add: r_def)
qed

lemma fftshift_st_gives: "gives_complex m (fftshift_st m v) (fftshift (read_complex m v))"
  unfolding fftshift_st_def by (rule new_complex_gives)

lemma ifftshift_st_gives: "gives_complex m (ifftshift_st m v) (ifftshift (read_complex m v))"
  unfolding ifftshift_st_def by (rule new_complex_gives)

lemma crop_nd_map: "crop (nd_map f a) = map_sum id (nd_map f) (crop a)"
  by (simp add: crop_def ndim_def index0_slice2_def slice2_def squeeze_def nd_map_def
      split: list.splits)

lemma crop_in_memory:
  assumes "in_memory m frame" "crop frame = Inr I"
  shows "in_memory m I"
  using assms
  by (auto simp: crop_def ndim_def index0_slice2_def slice2_def squeeze_def in_memory_def
      split: list.splits if_splits)

lemma fft2_st_cases:
  obtains (fail) e where "fft2 (nd_map complex_of_real (read_real m v)) = Inl e"
      "fft2_st m v = (Inl e, m)"
  | (ok) a r m' where "fft2 (nd_map complex_of_real (read_real m v)) = Inr a"
      "fft2_st m v = (Inr r, m')" "unchanged m m'" "in_memory m' r" "read_complex m' r = a"
  unfolding fft2_st_def by (rule new_complex_cases)

lemma multiply_st_cases:
  obtains (fail) e where
      "multiply (read_complex m v) (nd_map complex_of_real (read_real m w)) = Inl e"
      "multiply_st m v w = (Inl e, m)"
  | (ok) a r m' where
      "multiply (read_complex m v) (nd_map complex_of_real (read_real m w)) = Inr a"
      "multiply_st m v w = (Inr r, m')" "unchanged m m'" "in_memory m' r" "read_complex m' r = a"
  unfolding multiply_st_def by (rule new_complex_cases)

lemma ifft2_st_cases:
  obtains (fail) e where "ifft2 (read_complex m v) = Inl e" "ifft2_st m v = (Inl e, m)"
  | (ok) a r m' where "ifft2 (read_complex m v) = Inr a"
      "ifft2_st m v = (Inr r, m')" "unchanged m m'" "in_memory m' r" "read_complex m' r = a"
  unfolding ifft2_st_def by (rule new_complex_cases)

lemma frame_filter_st_gives:
  assumes "in_memory m frame"
  shows "gives_result m (frame_filter_st m frame d1 d2 n) read_complex
    (frame_filter (read_real m frame) d1 d2 n)"
proof (cases "crop frame")
  case (Inl e)
  then show ?thesis
    by (simp add: frame_filter_st_def frame_filter_def read_real_def crop_nd_map gives_result_def
        unchanged_refl)
next
  case (Inr I)
  let ?B = "nd_map complex_of_real (butterworth d1 d2 n)"
  have I: "in_memory m I"
    using assms Inr by (rule crop_in_memory)
  have crop: "crop (read_real m frame) = Inr (read_real m I)"
    by (simp add: read_real_def crop_nd_map Inr)
  obtain bff m1 where 1: "butterworth_st m d1 d2 n = (bff, m1)" "unchanged m m1" "in_memory m1 bff"
      "read_real m1 bff = butterworth d1 d2 n"
    using butterworth_st_gives by (rule gives_realE)
  have I1: "read_real m I = read_real m1 I"
    using read_unchanged(1) [OF 1(2) I] by simp
  have run: "frame_filter_st m frame d1 d2 n =
      (case fft2_st m1 I of
         (Inl e, m) \<Rightarrow> (Inl e, m)
       | (Inr I_fft, m) \<Rightarrow>
           (let (I_fft_shift, m) = fftshift_st m I_fft
            in (case multiply_st m I_fft_shift bff of
                  (Inl e, m) \<Rightarrow> (Inl e, m)
                | (Inr I_fft_shift_filt, m) \<Rightarrow>
                    (let (I_fft_filt, m) = ifftshift_st m I_fft_shift_filt
                     in ifft2_st m I_fft_filt))))"
    by (simp only: frame_filter_st_def Inr sum.case 1(1) Let_def prod.case)
  have pure: "frame_filter (read_real m frame) d1 d2 n =
      (case fft2 (nd_map complex_of_real (read_real m1 I)) of
         Inl e \<Rightarrow> Inl e
       | Inr I_fft \<Rightarrow>
           (case multiply (fftshift I_fft) ?B of
              Inl e \<Rightarrow> Inl e
            | Inr I_fft_shift_filt \<Rightarrow> ifft2 (ifftshift I_fft_shift_filt)))"
    by (simp only: frame_filter_def crop sum.case Let_def I1)
  show ?thesis
  proof (cases rule: fft2_st_cases [of m1 I])
    case (fail e)
    show ?thesis
      using 1(2) by (simp add: run pure fail gives_result_def)
  next
    case (ok a I_fft m2)
    note 2 = ok
    obtain I_fft_shift m3 where 3: "fftshift_st m2 I_fft = (I_fft_shift, m3)" "unchanged m2 m3"
        "in_memory m3 I_fft_shift" "read_complex m3 I_fft_shift = fftshift (read_complex m2 I_fft)"
      using fftshift_st_gives by (rule gives_complexE)
    have keep3: "unchanged m m3"
      using 1(2) 2(3) 3(2) by (blast intro: unchanged_trans)
    have bff3: "read_real m3 bff = butterworth d1 d2 n"
      using read_unchanged(1) [OF unchanged_trans [OF 2(3) 3(2)] 1(3)] 1(4) by simp
    have shifted: "read_complex m3 I_fft_shift = fftshift a"
      using 3(4) 2(5) by simp
    show ?thesis
    proof (cases rule: multiply_st_cases [of m3 I_fft_shift bff])
      case (fail e)
      have "multiply (fftshift a) ?B = Inl e"
        using fail(1) by (simp only: shifted bff3)
      then show ?thesis
        using keep3 by (simp add: run pure 2(1,2) 3(1) fail(2) gives_result_def)
    next
      case (ok p I_fft_shift_filt m4)
      note 4 = ok
      have mult: "multiply (fftshift a) ?B = Inr p"
        using 4(1) by (simp only: shifted bff3)
      obtain I_fft_filt m5 where 5: "ifftshift_st m4 I_fft_shift_filt = (I_fft_filt, m5)"
          "unchanged m4 m5" "in_memory m5 I_fft_filt"
          "read_complex m5 I_fft_filt = ifftshift (read_complex m4 I_fft_shift_filt)"
        using ifftshift_st_gives by (rule gives_complexE)
      have keep5: "unchanged m m5"
        using keep3 4(3) 5(2) by (blast intro: unchanged_trans)
      have shifted_back: "read_complex m5 I_fft_filt = ifftshift p"
        using 5(4) 4(5) by simp
      have run': "frame_filter_st m frame d1 d2 n = ifft2_st m5 I_fft_filt"
        unfolding run by (simp add: 2(2) 3(1) 4(2) 5(1))
      have pure': "frame_filter (read_real m frame) d1 d2 n = ifft2 (read_complex m5 I_fft_filt)"
        unfolding pure by (simp add: 2(1) mult shifted_back)
      show ?thesis
      proof (cases rule: ifft2_st_cases [of m5 I_fft_filt])
        case (fail e)
        then show ?thesis
          using keep5 by (simp add: run' pure' gives_result_def)
      next
        case (ok q I_filt m6)
        then show ?thesis
          using unchanged_trans [OF keep5 ok(3)]
          by (simp add: run' pure' gives_result_def)
      qed
    qed
  qed
qed

lemma gives_resultE:
  assumes "gives_result m r rd x"
  obtains (fail) e m' where "r = (Inl e, m')" "unchanged m m'" "x = Inl e"
  | (ok) v m' where "r = (Inr v, m')" "unchanged m m'" "in_memory m' v" "x = Inr (rd m' v)"
proof (cases r)
  case (Pair res m')
  show ?thesis
  proof (cases res)
    case (Inl e)
    then show ?thesis using assms Pair fail by (simp add: gives_result_def)
  next
    case (Inr v)
    then show ?thesis using assms Pair ok by (simp add: gives_result_def)
  qed
qed

lemma absolute_st_gives: "gives_real m (absolute_st m v) (nd_map cmod (read_complex m v))"
  unfolding absolute_st_def by (rule new_real_gives)

lemma greater_st_gives:
  "\<exists>w m'. greater_st m v c = (w, m') \<and> unchanged m m' \<and> in_memory m' w \<and>
     read_bool m' w = nd_map (\<lambda>x. c < x) (read_real m v)"
  by (simp add: greater_st_def new_bool_def unchanged_def in_memory_def whole_def read_bool_def
      nd_map_def)

lemma array_st_gives:
  "\<exists>w m'. array_st m xs = (w, m') \<and> unchanged m m' \<and> in_memory m' w \<and>
     read_int m' w = np_array xs"
  by (simp add: array_st_def new_int_def unchanged_def in_memory_def whole_def read_int_def
      nd_map_def)

lemma calc_floc_proxy_st_gives:
  assumes "in_memory m frame"
  shows "gives_result m (calc_floc_proxy_st m frame d1 d2 n) read_int
    (calc_floc_proxy (read_real m frame) d1 d2 n)"
  using frame_filter_st_gives [OF assms, of d1 d2 n]
proof (cases rule: gives_resultE)
  case (fail e m1)
  then show ?thesis
    by (simp add: calc_floc_proxy_st_def calc_floc_proxy_def gives_result_def)
next
  case (ok I_filt m1)
  obtain magnitude m2 where 2: "absolute_st m1 I_filt = (magnitude, m2)" "unchanged m1 m2"
      "in_memory m2 magnitude" "read_real m2 magnitude = nd_map cmod (read_complex m1 I_filt)"
    using absolute_st_gives by (rule gives_realE)
  obtain above m3 where 3: "greater_st m2 magnitude 4000 = (above, m3)" "unchanged m2 m3"
      "in_memory m3 above" "read_bool m3 above = nd_map (\<lambda>x. 4000 < x) (read_real m2 magnitude)"
    using greater_st_gives by blast
  obtain proxy m4 where 4: "array_st m3 [sum_st m3 above] = (proxy, m4)" "unchanged m3 m4"
      "in_memory m4 proxy" "read_int m4 proxy = np_array [sum_st m3 above]"
    using array_st_gives by blast
  have keep: "unchanged m m4"
    using ok(2) 2(2) 3(2) 4(2) by (blast intro: unchanged_trans)
  have run: "calc_floc_proxy_st m frame d1 d2 n = (Inr proxy, m4)"
    by (simp only: calc_floc_proxy_st_def ok(1) prod.case sum.case Let_def 2(1) 3(1) 4(1))
  have "calc_floc_proxy (read_real m frame) d1 d2 n = Inr (read_int m4 proxy)"
    by (simp add: calc_floc_proxy_def ok(4) 4(4) sum_st_def 3(4) 2(4))
  then show ?thesis
    using keep 4(3) by (simp add: run gives_result_def)
qed

text \<open>
  Claim C6. The filter functions are stateless and pure. Take two runs of a function,
  in any two memories, on inputs of equal contents: the same \<open>d1\<close>, \<open>d2\<close>, \<open>n\<close> and
  frames that hold the same array. Then both runs leave every buffer that existed
  before the call and every global variable as they were (in particular the frame),
  and they return the same error or arrays of equal contents. The memories may differ
  in everything but the contents of the frame, so nothing else is read.
\<close>

theorem filter_functions_are_pure:
  assumes "in_memory m frame" "in_memory m' frame'" "read_real m frame = read_real m' frame'"
  shows
    "(case butterworth_st m d1 d2 n of (v, ma) \<Rightarrow>
      case butterworth_st m' d1 d2 n of (v', mb) \<Rightarrow>
        unchanged m ma \<and> unchanged m' mb \<and> read_real ma v = read_real mb v') \<and>
     (case frame_filter_st m frame d1 d2 n of (r, ma) \<Rightarrow>
      case frame_filter_st m' frame' d1 d2 n of (r', mb) \<Rightarrow>
        unchanged m ma \<and> unchanged m' mb \<and> read_real ma frame = read_real m frame \<and>
        map_sum id (read_complex ma) r = map_sum id (read_complex mb) r') \<and>
     (case calc_floc_proxy_st m frame d1 d2 n of (r, ma) \<Rightarrow>
      case calc_floc_proxy_st m' frame' d1 d2 n of (r', mb) \<Rightarrow>
        unchanged m ma \<and> unchanged m' mb \<and> read_real ma frame = read_real m frame \<and>
        map_sum id (read_int ma) r = map_sum id (read_int mb) r')"
proof (intro conjI)
  show "case butterworth_st m d1 d2 n of (v, ma) \<Rightarrow>
      case butterworth_st m' d1 d2 n of (v', mb) \<Rightarrow>
        unchanged m ma \<and> unchanged m' mb \<and> read_real ma v = read_real mb v'"
    using butterworth_st_gives [of m d1 d2 n] butterworth_st_gives [of m' d1 d2 n]
    by (auto simp: gives_real_def)
next
  have res: "map_sum id (rd (snd r)) (fst r) = x" if "gives_result m0 r rd x"
    for m0 r x and rd :: "memory \<Rightarrow> view \<Rightarrow> 'a"
    using that by (cases "fst r") (simp_all add: gives_result_def)
  have keep: "unchanged m0 (snd r) \<and> read_real (snd r) f = read_real m0 f"
    if "gives_result m0 r rd x" "in_memory m0 f"
    for m0 r x f and rd :: "memory \<Rightarrow> view \<Rightarrow> 'a"
    using that read_unchanged(1) [of m0 "snd r" f] by (simp add: gives_result_def)
  show "case frame_filter_st m frame d1 d2 n of (r, ma) \<Rightarrow>
      case frame_filter_st m' frame' d1 d2 n of (r', mb) \<Rightarrow>
        unchanged m ma \<and> unchanged m' mb \<and> read_real ma frame = read_real m frame \<and>
        map_sum id (read_complex ma) r = map_sum id (read_complex mb) r'"
    using res [OF frame_filter_st_gives [OF assms(1), of d1 d2 n]]
      res [OF frame_filter_st_gives [OF assms(2), of d1 d2 n]]
      keep [OF frame_filter_st_gives [OF assms(1), of d1 d2 n] assms(1)]
      keep [OF frame_filter_st_gives [OF assms(2), of d1 d2 n] assms(2)] assms(3)
    by (simp add: case_prod_unfold)
  show "case calc_floc_proxy_st m frame d1 d2 n of (r, ma) \<Rightarrow>
      case calc_floc_proxy_st m' frame' d1 d2 n of (r', mb) \<Rightarrow>
        unchanged m ma \<and> unchanged m' mb \<and> read_real ma frame = read_real m frame \<and>
        map_sum id (read_int ma) r = map_sum id (read_int mb) r'"
    using res [OF calc_floc_proxy_st_gives [OF assms(1), of d1 d2 n]]
      res [OF calc_floc_proxy_st_gives [OF assms(2), of d1 d2 n]]
      keep [OF calc_floc_proxy_st_gives [OF assms(1), of d1 d2 n] assms(1)]
      keep [OF calc_floc_proxy_st_gives [OF assms(2), of d1 d2 n] assms(2)] assms(3)
    by (simp add: case_prod_unfold)
qed

theorem filter_functions_are_pure_witness:
  "(case calc_floc_proxy_st first_memory (whole 0 [1080, 1920]) 20 400 4 of (r, ma) \<Rightarrow>
    case calc_floc_proxy_st second_memory (whole 1 [1080, 1920]) 20 400 4 of (r', mb) \<Rightarrow>
      unchanged first_memory ma \<and> unchanged second_memory mb \<and>
      read_real ma (whole 0 [1080, 1920]) = read_real first_memory (whole 0 [1080, 1920]) \<and>
      map_sum id (read_int ma) r = map_sum id (read_int mb) r')"
proof -
  have a: "in_memory first_memory (whole 0 [1080, 1920])"
    by (simp add: in_memory_def whole_def first_memory_def new_real_def empty_memory_def)
  have b: "in_memory second_memory (whole 1 [1080, 1920])"
    by (simp add: in_memory_def whole_def second_memory_def new_real_def empty_memory_def)
  have c: "read_real first_memory (whole 0 [1080, 1920]) =
      read_real second_memory (whole 1 [1080, 1920])"
    by (simp add: read_real_def whole_def nd_map_def first_memory_def second_memory_def
        new_real_def empty_memory_def)
  show ?thesis
    using filter_functions_are_pure [OF a b c, of 20 400 4] by (elim conjE)
qed

end
